theory Spec2Isabelle
  imports Complex_Main
begin

section \<open>Numbers, vectors and arrays\<close>

text \<open>
  The simulation computes with JavaScript numbers. Except in the velocity pass of the
  Verlet algorithm they are modelled as exact reals: every arithmetic operation of the
  source is the corresponding operation on \<^typ>\<open>real\<close>, and rounding, overflow to
  infinity and NaN are outside the model. The velocity pass caps a magnitude at a fixed
  number, where rounding decides; it is modelled over the arithmetic it computes with.

  \<open>Vector2\<close> is the two-dimensional vector of the DOT library (fields \<open>x\<close> and
  \<open>y\<close>). The per-molecule arrays of the data set hold one vector object per molecule;
  a list holds the populated slots, and an access past its end is the source's access to
  an empty slot, whose first field access throws a TypeError. A thrown exception is the
  result \<open>None\<close>.
\<close>

datatype Vector2 = Vector2 (vecX: real) (vecY: real)

definition addXY :: "Vector2 \<Rightarrow> real \<Rightarrow> real \<Rightarrow> Vector2" where
  "addXY v a b = Vector2 (vecX v + a) (vecY v + b)"

definition subtractXY :: "Vector2 \<Rightarrow> real \<Rightarrow> real \<Rightarrow> Vector2" where
  "subtractXY v a b = Vector2 (vecX v - a) (vecY v - b)"

definition slot :: "'a list \<Rightarrow> nat \<Rightarrow> 'a option" where
  "slot xs i = (if i < length xs then Some (xs ! i) else None)"

text \<open>
  The fields of \<open>MoleculeForceAndMotionDataSet\<close> that the engine reads and writes.
\<close>

record MoleculeForceAndMotionDataSet =
  numberOfAtoms :: nat
  numberOfMolecules :: nat
  moleculeMass :: real
  moleculeRotationalInertia :: real
  moleculeCenterOfMassPositions :: "Vector2 list"
  moleculeVelocities :: "Vector2 list"
  moleculeForces :: "Vector2 list"
  nextMoleculeForces :: "Vector2 list"
  moleculeRotationRates :: "real list"

section \<open>MonatomicVerletAlgorithm\<close>

subsection \<open>Constants of AbstractVerletAlgorithm\<close>

definition PARTICLE_INTERACTION_DISTANCE_THRESH_SQRD :: real where
  "PARTICLE_INTERACTION_DISTANCE_THRESH_SQRD = 6.25"

definition MIN_DISTANCE_SQUARED :: real where
  "MIN_DISTANCE_SQUARED = 0.90"

subsection \<open>updateInteractionForces\<close>

text \<open>
  \<open>clampedDistanceSqrd\<close> is the \<open>Math.max\<close> of line 86 and \<open>handleCoincident\<close> the
  \<open>if ( distanceSqrd === 0 )\<close> statement of lines 88 to 94, acting on the three local
  variables \<open>dx\<close>, \<open>dy\<close> and \<open>distanceSqrd\<close>.
\<close>

definition clampedDistanceSqrd :: "real \<Rightarrow> real \<Rightarrow> real" where
  "clampedDistanceSqrd dx dy = max (dx * dx + dy * dy) MIN_DISTANCE_SQUARED"

definition handleCoincident :: "real \<times> real \<times> real \<Rightarrow> real \<times> real \<times> real" where
  "handleCoincident t =
     (case t of (dx, dy, distanceSqrd) \<Rightarrow>
        if distanceSqrd = 0 then (1, 1, 2) else (dx, dy, distanceSqrd))"

text \<open>
  The force that one pair contributes (lines 98 to 102), from the local variables after
  the two statements above.
\<close>

definition pairForce :: "real \<Rightarrow> real \<times> real \<times> real \<Rightarrow> real \<times> real" where
  "pairForce epsilon t =
     (case t of (dx, dy, distanceSqrd) \<Rightarrow>
        let r2inv = 1 / distanceSqrd;
            r6inv = r2inv * r2inv * r2inv;
            forceScalar = 48 * r2inv * r6inv * (r6inv - 0.5) * epsilon
        in (dx * forceScalar, dy * forceScalar))"

text \<open>
  The body of the inner loop for the pair \<open>(i, j)\<close>. The position of molecule \<open>i\<close> was
  read by the outer loop; \<open>nextAtomForcesI\<close> is the object in slot \<open>i\<close> of
  \<open>nextMoleculeForces\<close>, so \<open>addXY\<close> on it updates that slot.
\<close>

definition interactPair ::
  "real \<Rightarrow> Vector2 \<Rightarrow> nat \<Rightarrow> nat \<Rightarrow> Vector2 list \<Rightarrow> Vector2 list \<Rightarrow> Vector2 list option" where
  "interactPair epsilon posI i j positions nextAtomForces =
     (case slot positions j of
        None \<Rightarrow> None
      | Some posJ \<Rightarrow>
          let dx = vecX posI - vecX posJ;
              dy = vecY posI - vecY posJ;
              t = handleCoincident (dx, dy, clampedDistanceSqrd dx dy)
          in if snd (snd t) < PARTICLE_INTERACTION_DISTANCE_THRESH_SQRD then
               (case pairForce epsilon t of (forceX, forceY) \<Rightarrow>
                  (case slot nextAtomForces i of
                     None \<Rightarrow> None
                   | Some forceI \<Rightarrow>
                       let forces1 = nextAtomForces[i := addXY forceI forceX forceY]
                       in (case slot forces1 j of
                             None \<Rightarrow> None
                           | Some forceJ \<Rightarrow>
                               Some (forces1[j := subtractXY forceJ forceX forceY]))))
             else Some nextAtomForces)"

function innerLoop ::
  "real \<Rightarrow> Vector2 \<Rightarrow> nat \<Rightarrow> nat \<Rightarrow> nat \<Rightarrow> Vector2 list \<Rightarrow> Vector2 list \<Rightarrow> Vector2 list option" where
  "innerLoop epsilon posI i j n positions nextAtomForces =
     (if j < n then
        (case interactPair epsilon posI i j positions nextAtomForces of
           None \<Rightarrow> None
         | Some forces' \<Rightarrow> innerLoop epsilon posI i (Suc j) n positions forces')
      else Some nextAtomForces)"
  by pat_completeness auto
termination
  by (relation "measure (\<lambda>(epsilon, posI, i, j, n, positions, forces). n - j)") auto

function outerLoop ::
  "real \<Rightarrow> nat \<Rightarrow> nat \<Rightarrow> Vector2 list \<Rightarrow> Vector2 list \<Rightarrow> Vector2 list option" where
  "outerLoop epsilon i n positions nextAtomForces =
     (if i < n then
        (case slot positions i of
           None \<Rightarrow> None
         | Some posI \<Rightarrow>
             (case innerLoop epsilon posI i (Suc i) n positions nextAtomForces of
                None \<Rightarrow> None
              | Some forces' \<Rightarrow> outerLoop epsilon (Suc i) n positions forces'))
      else Some nextAtomForces)"
  by pat_completeness auto
termination
  by (relation "measure (\<lambda>(epsilon, i, n, positions, forces). n - i)") auto

definition updateInteractionForces ::
  "real \<Rightarrow> MoleculeForceAndMotionDataSet \<Rightarrow> MoleculeForceAndMotionDataSet option" where
  "updateInteractionForces epsilon moleculeDataSet =
     (case outerLoop epsilon 0 (numberOfMolecules moleculeDataSet)
             (moleculeCenterOfMassPositions moleculeDataSet)
             (nextMoleculeForces moleculeDataSet) of
        None \<Rightarrow> None
      | Some forces' \<Rightarrow> Some (moleculeDataSet\<lparr>nextMoleculeForces := forces'\<rparr>))"

text \<open>The total of a force array, per component.\<close>

definition totalX :: "Vector2 list \<Rightarrow> real" where
  "totalX vs = sum_list (map vecX vs)"

definition totalY :: "Vector2 list \<Rightarrow> real" where
  "totalY vs = sum_list (map vecY vs)"

text \<open>
  A data set is populated when each array the pass touches holds a vector for every
  molecule counted by \<open>numberOfMolecules\<close>.
\<close>

definition populated :: "MoleculeForceAndMotionDataSet \<Rightarrow> bool" where
  "populated moleculeDataSet =
     (numberOfMolecules moleculeDataSet \<le> length (moleculeCenterOfMassPositions moleculeDataSet) \<and>
      numberOfMolecules moleculeDataSet \<le> length (nextMoleculeForces moleculeDataSet))"







subsection \<open>Arithmetic of the velocity pass\<close>

text \<open>
  An arithmetic gives the result of an addition, a multiplication, a division and a
  square root of numbers. In the exact arithmetic the results are those of the real
  numbers.
\<close>

record Arithmetic =
  addOp :: "real \<Rightarrow> real \<Rightarrow> real"
  mulOp :: "real \<Rightarrow> real \<Rightarrow> real"
  divOp :: "real \<Rightarrow> real \<Rightarrow> real"
  sqrtOp :: "real \<Rightarrow> real"

definition exactArithmetic :: Arithmetic where
  "exactArithmetic =
     \<lparr>addOp = (\<lambda>a b. a + b),
      mulOp = (\<lambda>a b. a * b),
      divOp = (\<lambda>a b. a / b),
      sqrtOp = (\<lambda>a. sqrt a)\<rparr>"

text \<open>
  The arithmetic of JavaScript numbers: each operation returns the exact result rounded
  to the nearest number with 53 significant bits, a tie going to the even one (IEEE 754
  binary64, rounding to nearest). \<open>Math.sqrt\<close> is taken as the correctly rounded
  square root. The exponent is not bounded in the model: overflow to infinity, the
  subnormal numbers and NaN are outside it, and a division by zero has the result 0 of
  the real division of HOL.
\<close>

definition roundHalfEven :: "real \<Rightarrow> int" where
  "roundHalfEven y =
     (let f = \<lfloor>y\<rfloor>; d = y - of_int f
      in if d < 1 / 2 then f else if 1 / 2 < d then f + 1 else if even f then f else f + 1)"

definition roundToDouble :: "real \<Rightarrow> real" where
  "roundToDouble x =
     (if x = 0 then 0
      else (let e = \<lfloor>log 2 \<bar>x\<bar>\<rfloor>;
                q = 2 powi (e - 52)
            in sgn x * (q * of_int (roundHalfEven (\<bar>x\<bar> / q)))))"

definition doubleArithmetic :: Arithmetic where
  "doubleArithmetic =
     \<lparr>addOp = (\<lambda>a b. roundToDouble (a + b)),
      mulOp = (\<lambda>a b. roundToDouble (a * b)),
      divOp = (\<lambda>a b. roundToDouble (a / b)),
      sqrtOp = (\<lambda>a. roundToDouble (sqrt a))\<rparr>"

text \<open>
  An arithmetic is accurate to \<open>u\<close> when every result differs from the exact one by at
  most \<open>u\<close> times the size of the exact one.
\<close>

definition accurateTo :: "real \<Rightarrow> Arithmetic \<Rightarrow> bool" where
  "accurateTo u ar =
     ((\<forall>a b. \<bar>addOp ar a b - (a + b)\<bar> \<le> u * \<bar>a + b\<bar>) \<and>
      (\<forall>a b. \<bar>mulOp ar a b - a * b\<bar> \<le> u * \<bar>a * b\<bar>) \<and>
      (\<forall>a b. \<bar>divOp ar a b - a / b\<bar> \<le> u * \<bar>a / b\<bar>) \<and>
      (\<forall>a. 0 \<le> a \<longrightarrow> \<bar>sqrtOp ar a - sqrt a\<bar> \<le> u * sqrt a))"

text \<open>
  The bound on the length of a capped velocity in an arithmetic that is accurate to
  \<open>u\<close>: it is 10 for \<open>u = 0\<close> and about \<open>10 + 40 u\<close> for small \<open>u\<close>.
\<close>

definition roundingBound :: "real \<Rightarrow> real" where
  "roundingBound u = 10 * ((1 + u) / (1 - u))\<^sup>2"

text \<open>
  The getter \<open>magnitude\<close> and the methods \<open>multiplyScalar\<close> and \<open>setMagnitude\<close>
  of \<open>Vector2\<close>, as the DOT library computes them.
\<close>

definition magnitude :: "Arithmetic \<Rightarrow> Vector2 \<Rightarrow> real" where
  "magnitude ar v =
     sqrtOp ar (addOp ar (mulOp ar (vecX v) (vecX v)) (mulOp ar (vecY v) (vecY v)))"

definition multiplyScalar :: "Arithmetic \<Rightarrow> Vector2 \<Rightarrow> real \<Rightarrow> Vector2" where
  "multiplyScalar ar v s = Vector2 (mulOp ar (vecX v) s) (mulOp ar (vecY v) s)"

definition setMagnitude :: "Arithmetic \<Rightarrow> Vector2 \<Rightarrow> real \<Rightarrow> Vector2" where
  "setMagnitude ar v m = multiplyScalar ar v (divOp ar m (magnitude ar v))"

text \<open>The length of a vector: its magnitude in exact arithmetic.\<close>

definition euclideanLength :: "Vector2 \<Rightarrow> real" where
  "euclideanLength v = sqrt (vecX v * vecX v + vecY v * vecY v)"

subsection \<open>updateVelocitiesAndRotationRates\<close>

text \<open>
  One iteration of the loop of lines 127 to 143 computes the new velocity of an atom from
  its velocity, its current force and its next-step force: the velocity-Verlet update
  into the reusable \<open>velocityVector\<close> (lines 130 to 133), then the cap on its
  magnitude (lines 134 to 136).
\<close>

definition verletVelocity :: "Arithmetic \<Rightarrow> real \<Rightarrow> Vector2 \<Rightarrow> Vector2 \<Rightarrow> Vector2 \<Rightarrow> Vector2" where
  "verletVelocity ar timeStepHalf atomVelocity moleculeForce nextForce =
     Vector2 (addOp ar (vecX atomVelocity)
                (mulOp ar timeStepHalf (addOp ar (vecX moleculeForce) (vecX nextForce))))
             (addOp ar (vecY atomVelocity)
                (mulOp ar timeStepHalf (addOp ar (vecY moleculeForce) (vecY nextForce))))"

definition cappedVelocity :: "Arithmetic \<Rightarrow> real \<Rightarrow> Vector2 \<Rightarrow> Vector2 \<Rightarrow> Vector2 \<Rightarrow> Vector2" where
  "cappedVelocity ar timeStepHalf atomVelocity moleculeForce nextForce =
     (let velocityVector = verletVelocity ar timeStepHalf atomVelocity moleculeForce nextForce
      in if magnitude ar velocityVector > 10 then setMagnitude ar velocityVector 10
         else velocityVector)"

text \<open>The kinetic energy that line 139 adds for a stored velocity.\<close>

definition kineticEnergy :: "Arithmetic \<Rightarrow> Vector2 \<Rightarrow> real" where
  "kineticEnergy ar v =
     divOp ar (addOp ar (mulOp ar (vecX v) (vecX v)) (mulOp ar (vecY v) (vecY v))) 2"

text \<open>
  The loop state is the velocity array, the force array and \<open>totalKineticEnergy\<close>; the
  next-step forces are only read.
\<close>

function velocityLoop ::
  "Arithmetic \<Rightarrow> real \<Rightarrow> nat \<Rightarrow> nat \<Rightarrow> Vector2 list \<Rightarrow> Vector2 list \<Rightarrow> Vector2 list \<Rightarrow> real \<Rightarrow>
   (Vector2 list \<times> Vector2 list \<times> real) option" where
  "velocityLoop ar timeStepHalf i n nextAtomForces atomVelocities atomForces totalKineticEnergy =
     (if i < n then
        (case slot atomVelocities i of
           None \<Rightarrow> None
         | Some atomVelocity \<Rightarrow>
             (case slot atomForces i of
                None \<Rightarrow> None
              | Some moleculeForce \<Rightarrow>
                  (case slot nextAtomForces i of
                     None \<Rightarrow> None
                   | Some nextForce \<Rightarrow>
                       velocityLoop ar timeStepHalf (Suc i) n nextAtomForces
                         (atomVelocities
                            [i := cappedVelocity ar timeStepHalf atomVelocity moleculeForce nextForce])
                         (atomForces[i := Vector2 (vecX nextForce) (vecY nextForce)])
                         (addOp ar totalKineticEnergy
                            (kineticEnergy ar
                               (cappedVelocity ar timeStepHalf atomVelocity moleculeForce nextForce))))))
      else Some (atomVelocities, atomForces, totalKineticEnergy))"
  by pat_completeness auto
termination
  by (relation "measure (\<lambda>(ar, timeStepHalf, i, n, nextAtomForces, vs, fs, e). n - i)") auto

text \<open>
  The pass returns the data set and the value it stores in \<open>calculatedTemperature\<close>;
  with no atoms that is the model's \<open>minModelTemperature\<close>, which is \<open>null\<close> (here
  \<open>None\<close>) until a substance is chosen.
\<close>

definition updateVelocitiesAndRotationRates ::
  "Arithmetic \<Rightarrow> real option \<Rightarrow> MoleculeForceAndMotionDataSet \<Rightarrow> real \<Rightarrow>
   (MoleculeForceAndMotionDataSet \<times> real option) option" where
  "updateVelocitiesAndRotationRates ar modelMinTemperature moleculeDataSet timeStep =
     (case velocityLoop ar (divOp ar timeStep 2) 0 (numberOfAtoms moleculeDataSet)
             (nextMoleculeForces moleculeDataSet)
             (moleculeVelocities moleculeDataSet) (moleculeForces moleculeDataSet) 0 of
        None \<Rightarrow> None
      | Some (atomVelocities, atomForces, totalKineticEnergy) \<Rightarrow>
          Some (moleculeDataSet\<lparr>moleculeVelocities := atomVelocities, moleculeForces := atomForces\<rparr>,
                if numberOfAtoms moleculeDataSet > 0
                then Some (mulOp ar (divOp ar 2 3)
                             (divOp ar totalKineticEnergy (real (numberOfAtoms moleculeDataSet))))
                else modelMinTemperature))"

text \<open>
  The arrays that the velocity pass indexes hold an entry for each of the
  \<open>numberOfAtoms\<close> atoms, and the data set is monatomic: one atom per molecule.
\<close>

definition monatomicPopulated :: "MoleculeForceAndMotionDataSet \<Rightarrow> bool" where
  "monatomicPopulated moleculeDataSet =
     (numberOfAtoms moleculeDataSet = numberOfMolecules moleculeDataSet \<and>
      numberOfAtoms moleculeDataSet \<le> length (moleculeVelocities moleculeDataSet) \<and>
      numberOfAtoms moleculeDataSet \<le> length (moleculeForces moleculeDataSet) \<and>
      numberOfAtoms moleculeDataSet \<le> length (nextMoleculeForces moleculeDataSet))"

section \<open>AndersenThermostat\<close>

record AndersenThermostat =
  targetTemperature :: real
  thermostatMinTemperature :: real

text \<open>
  Lines 49 to 59 of \<open>adjustTemperature\<close>: the two damping coefficients and the
  temperature that scales the random kicks.
\<close>

definition dampingCoefficients :: "AndersenThermostat \<Rightarrow> real \<times> real \<times> real" where
  "dampingCoefficients thermostat =
     (if targetTemperature thermostat \<le> thermostatMinTemperature thermostat
      then (0.992, 0.999, 0)
      else (0.9999, 0.9999, targetTemperature thermostat))"

text \<open>
  The two scaling factors of lines 61 to 64. \<open>Math.sqrt\<close> of a negative number is
  NaN, which the model of numbers does not have; mass, inertia and temperature are not
  negative in the simulation.
\<close>

definition velocityScalingFactor :: "real \<Rightarrow> real \<Rightarrow> real \<Rightarrow> real" where
  "velocityScalingFactor temperature mass gammaX =
     sqrt (temperature * (1 / mass) * (1 - gammaX ^ 2))"

definition rotationScalingFactor :: "real \<Rightarrow> real \<Rightarrow> real \<Rightarrow> real" where
  "rotationScalingFactor temperature inertia gammaX =
     sqrt (temperature * (1 / inertia) * (1 - gammaX ^ 2))"

text \<open>
  The body of the loop of lines 66 to 74 for one molecule, given the three Gaussian
  samples it draws in order: the new velocity and the new rotation rate.
\<close>

definition adjustMolecule ::
  "AndersenThermostat \<Rightarrow> real \<Rightarrow> real \<Rightarrow> Vector2 \<Rightarrow> real \<Rightarrow> real \<times> real \<times> real \<Rightarrow> Vector2 \<times> real" where
  "adjustMolecule thermostat mass inertia velocity rotationRate samples =
     (case dampingCoefficients thermostat of (gammaX, gammaY, temperature) \<Rightarrow>
        (case samples of (g1, g2, g3) \<Rightarrow>
           (Vector2 (vecX velocity * gammaX + g1 * velocityScalingFactor temperature mass gammaX)
                    (vecY velocity * gammaY + g2 * velocityScalingFactor temperature mass gammaX),
            gammaX * rotationRate + g3 * rotationScalingFactor temperature inertia gammaX)))"

text \<open>
  The random source is the sequence of values that successive calls of
  \<open>nextGaussian\<close> return; molecule \<open>i\<close> consumes samples \<open>3 i\<close>, \<open>3 i + 1\<close>
  and \<open>3 i + 2\<close>. A rotation-rate slot past the end of its array reads as
  \<open>undefined\<close> and makes the stored rate NaN; the model of numbers has no NaN, and
  such a call has the result \<open>None\<close> as well.
\<close>

function adjustLoop ::
  "AndersenThermostat \<Rightarrow> real \<Rightarrow> real \<Rightarrow> (nat \<Rightarrow> real) \<Rightarrow> nat \<Rightarrow> nat \<Rightarrow>
   Vector2 list \<Rightarrow> real list \<Rightarrow> (Vector2 list \<times> real list) option" where
  "adjustLoop thermostat mass inertia gaussian i n velocities rotationRates =
     (if i < n then
        (case slot velocities i of
           None \<Rightarrow> None
         | Some velocity \<Rightarrow>
             (case slot rotationRates i of
                None \<Rightarrow> None
              | Some rotationRate \<Rightarrow>
                  (case adjustMolecule thermostat mass inertia velocity rotationRate
                          (gaussian (3 * i), gaussian (3 * i + 1), gaussian (3 * i + 2)) of
                     (velocity', rate') \<Rightarrow>
                       adjustLoop thermostat mass inertia gaussian (Suc i) n
                         (velocities[i := velocity']) (rotationRates[i := rate']))))
      else Some (velocities, rotationRates))"
  by pat_completeness auto
termination
  by (relation "measure (\<lambda>(thermostat, mass, inertia, gaussian, i, n, vs, rs). n - i)") auto

definition adjustTemperature ::
  "AndersenThermostat \<Rightarrow> (nat \<Rightarrow> real) \<Rightarrow> MoleculeForceAndMotionDataSet \<Rightarrow>
   MoleculeForceAndMotionDataSet option" where
  "adjustTemperature thermostat gaussian moleculeDataSet =
     (case adjustLoop thermostat (moleculeMass moleculeDataSet)
             (moleculeRotationalInertia moleculeDataSet) gaussian 0
             (numberOfMolecules moleculeDataSet)
             (moleculeVelocities moleculeDataSet) (moleculeRotationRates moleculeDataSet) of
        None \<Rightarrow> None
      | Some (velocities, rotationRates) \<Rightarrow>
          Some (moleculeDataSet\<lparr>moleculeVelocities := velocities,
                                moleculeRotationRates := rotationRates\<rparr>))"

section \<open>MultipleParticleModel\<close>

datatype SubstanceType = NEON | ARGON | DIATOMIC_OXYGEN | WATER | ADJUSTABLE_ATOM

text \<open>
  The constants of \<open>SOMConstants\<close> that the model reads. Their values are declared
  outside the files modelled here, so they are parameters of every function that uses
  them.
\<close>

record SOMConstants =
  TRIPLE_POINT_MONATOMIC_MODEL_TEMPERATURE :: real
  CRITICAL_POINT_MONATOMIC_MODEL_TEMPERATURE :: real
  TRIPLE_POINT_DIATOMIC_MODEL_TEMPERATURE :: real
  CRITICAL_POINT_DIATOMIC_MODEL_TEMPERATURE :: real
  TRIPLE_POINT_WATER_MODEL_TEMPERATURE :: real
  CRITICAL_POINT_WATER_MODEL_TEMPERATURE :: real
  NEON_TRIPLE_POINT_IN_KELVIN :: real
  NEON_CRITICAL_POINT_IN_KELVIN :: real
  ARGON_TRIPLE_POINT_IN_KELVIN :: real
  ARGON_CRITICAL_POINT_IN_KELVIN :: real
  O2_TRIPLE_POINT_IN_KELVIN :: real
  O2_CRITICAL_POINT_IN_KELVIN :: real
  WATER_TRIPLE_POINT_IN_KELVIN :: real
  WATER_CRITICAL_POINT_IN_KELVIN :: real

definition PARTICLE_CONTAINER_WIDTH :: real where
  "PARTICLE_CONTAINER_WIDTH = 10000"

definition PARTICLE_CONTAINER_INITIAL_HEIGHT :: real where
  "PARTICLE_CONTAINER_INITIAL_HEIGHT = 10000"

definition MAX_TEMPERATURE :: real where
  "MAX_TEMPERATURE = 50.0"

definition MIN_TEMPERATURE :: real where
  "MIN_TEMPERATURE = 0.00001"

definition MIN_ALLOWABLE_CONTAINER_HEIGHT :: real where
  "MIN_ALLOWABLE_CONTAINER_HEIGHT = 1500"

definition ADJUSTABLE_ATOM_TRIPLE_POINT_IN_KELVIN :: real where
  "ADJUSTABLE_ATOM_TRIPLE_POINT_IN_KELVIN = 75"

definition ADJUSTABLE_ATOM_CRITICAL_POINT_IN_KELVIN :: real where
  "ADJUSTABLE_ATOM_CRITICAL_POINT_IN_KELVIN = 140"

definition MAX_CONTAINER_SHRINK_RATE :: real where
  "MAX_CONTAINER_SHRINK_RATE = 1250"

definition MAX_CONTAINER_EXPAND_RATE :: real where
  "MAX_CONTAINER_EXPAND_RATE = 1500"

definition POST_EXPLOSION_CONTAINER_EXPANSION_RATE :: real where
  "POST_EXPLOSION_CONTAINER_EXPANSION_RATE = 9000"

text \<open>
  The state of the model: the values of its observable properties and its plain fields.
  \<open>particles\<close> is the array of the non-normalized particles, by position. A thermostat
  field is \<open>None\<close> while the source's field is \<open>null\<close>; of the isokinetic thermostat
  only the target temperature is modelled. \<open>minModelTemperature\<close> is \<open>None\<close> while
  it is \<open>null\<close>.
\<close>

record MultipleParticleModel =
  particleContainerHeight :: real
  targetContainerHeight :: real
  isExploded :: bool
  temperatureSetPoint :: real
  substance :: SubstanceType
  isPlaying :: bool
  particles :: "Vector2 list"
  normalizedContainerWidth :: real
  normalizedContainerHeight :: real
  normalizedTotalContainerHeight :: real
  normalizedLidVelocityY :: real
  particleDiameter :: real
  minModelTemperature :: "real option"
  residualTime :: real
  heightChangeThisStep :: real
  particleInjectedThisStep :: bool
  isoKineticThermostat :: "real option"
  andersenThermostat :: "AndersenThermostat option"

text \<open>
  A relational comparison of a number with a field that may be \<open>null\<close>: JavaScript
  converts \<open>null\<close> to \<open>0\<close>.
\<close>

definition toNumber :: "real option \<Rightarrow> real" where
  "toNumber v = (case v of None \<Rightarrow> 0 | Some r \<Rightarrow> r)"

subsection \<open>setTemperature\<close>

text \<open>
  The listener that the constructor attaches to the set point acts only while the state
  is being set through phet-io; that mode is outside the model, and setting the set point
  changes that field alone.
\<close>

definition setTemperature :: "real \<Rightarrow> MultipleParticleModel \<Rightarrow> MultipleParticleModel" where
  "setTemperature newTemperature model =
     (let model1 =
            (if newTemperature > MAX_TEMPERATURE then model\<lparr>temperatureSetPoint := MAX_TEMPERATURE\<rparr>
             else if newTemperature < MIN_TEMPERATURE then model\<lparr>temperatureSetPoint := MIN_TEMPERATURE\<rparr>
             else model\<lparr>temperatureSetPoint := newTemperature\<rparr>);
          model2 =
            (case isoKineticThermostat model1 of
               None \<Rightarrow> model1
             | Some target \<Rightarrow> model1\<lparr>isoKineticThermostat := Some newTemperature\<rparr>)
      in (case andersenThermostat model2 of
            None \<Rightarrow> model2
          | Some thermostat \<Rightarrow>
              model2\<lparr>andersenThermostat := Some (thermostat\<lparr>targetTemperature := newTemperature\<rparr>)\<rparr>))"

subsection \<open>getTemperatureInKelvin\<close>

text \<open>
  The \<open>switch\<close> of lines 372 to 411 selects four values by substance. Its
  \<open>default\<close> branch throws; no value of the enumeration reaches it.
\<close>

definition substancePoints :: "SOMConstants \<Rightarrow> SubstanceType \<Rightarrow> real \<times> real \<times> real \<times> real" where
  "substancePoints c s =
     (case s of
        NEON \<Rightarrow> (NEON_TRIPLE_POINT_IN_KELVIN c, NEON_CRITICAL_POINT_IN_KELVIN c,
                 TRIPLE_POINT_MONATOMIC_MODEL_TEMPERATURE c, CRITICAL_POINT_MONATOMIC_MODEL_TEMPERATURE c)
      | ARGON \<Rightarrow> (ARGON_TRIPLE_POINT_IN_KELVIN c, ARGON_CRITICAL_POINT_IN_KELVIN c,
                  TRIPLE_POINT_MONATOMIC_MODEL_TEMPERATURE c, CRITICAL_POINT_MONATOMIC_MODEL_TEMPERATURE c)
      | ADJUSTABLE_ATOM \<Rightarrow> (ADJUSTABLE_ATOM_TRIPLE_POINT_IN_KELVIN, ADJUSTABLE_ATOM_CRITICAL_POINT_IN_KELVIN,
                  TRIPLE_POINT_MONATOMIC_MODEL_TEMPERATURE c, CRITICAL_POINT_MONATOMIC_MODEL_TEMPERATURE c)
      | WATER \<Rightarrow> (WATER_TRIPLE_POINT_IN_KELVIN c, WATER_CRITICAL_POINT_IN_KELVIN c,
                  TRIPLE_POINT_WATER_MODEL_TEMPERATURE c, CRITICAL_POINT_WATER_MODEL_TEMPERATURE c)
      | DIATOMIC_OXYGEN \<Rightarrow> (O2_TRIPLE_POINT_IN_KELVIN c, O2_CRITICAL_POINT_IN_KELVIN c,
                  TRIPLE_POINT_DIATOMIC_MODEL_TEMPERATURE c, CRITICAL_POINT_DIATOMIC_MODEL_TEMPERATURE c))"

text \<open>The triple point of a substance in model units: the third of the four values.\<close>

definition substanceTriplePoint :: "SOMConstants \<Rightarrow> SubstanceType \<Rightarrow> real" where
  "substanceTriplePoint c s = fst (snd (snd (substancePoints c s)))"

text \<open>The result \<open>None\<close> is the source's \<open>null\<close>.\<close>

definition getTemperatureInKelvin :: "SOMConstants \<Rightarrow> MultipleParticleModel \<Rightarrow> real option" where
  "getTemperatureInKelvin c model =
     (if length (particles model) = 0 then None
      else
        (case substancePoints c (substance model) of
           (triplePointInKelvin, criticalPointInKelvin, triplePointInModelUnits, criticalPointInModelUnits) \<Rightarrow>
             if temperatureSetPoint model \<le> toNumber (minModelTemperature model) then Some 0
             else if temperatureSetPoint model < triplePointInModelUnits then
               (let temperatureInKelvin =
                      temperatureSetPoint model * triplePointInKelvin / triplePointInModelUnits
                in if temperatureInKelvin < 0.5 then Some 0.5 else Some temperatureInKelvin)
             else if temperatureSetPoint model < criticalPointInModelUnits then
               (let slope = (criticalPointInKelvin - triplePointInKelvin) /
                            (criticalPointInModelUnits - triplePointInModelUnits);
                    offset = triplePointInKelvin - (slope * triplePointInModelUnits)
                in Some (temperatureSetPoint model * slope + offset))
             else Some (temperatureSetPoint model * criticalPointInKelvin / criticalPointInModelUnits)))"

subsection \<open>setContainerExploded\<close>

definition resetContainerSize :: "MultipleParticleModel \<Rightarrow> MultipleParticleModel" where
  "resetContainerSize model =
     model\<lparr>particleContainerHeight := PARTICLE_CONTAINER_INITIAL_HEIGHT,
            targetContainerHeight := PARTICLE_CONTAINER_INITIAL_HEIGHT,
            normalizedContainerWidth := PARTICLE_CONTAINER_WIDTH / particleDiameter model,
            normalizedContainerHeight := PARTICLE_CONTAINER_INITIAL_HEIGHT / particleDiameter model,
            normalizedTotalContainerHeight := PARTICLE_CONTAINER_INITIAL_HEIGHT / particleDiameter model\<rparr>"

definition setContainerExploded :: "bool \<Rightarrow> MultipleParticleModel \<Rightarrow> MultipleParticleModel" where
  "setContainerExploded exploded model =
     (if isExploded model \<noteq> exploded then
        (let model1 = model\<lparr>isExploded := exploded\<rparr>
         in if \<not> exploded then resetContainerSize model1 else model1)
      else model)"

subsection \<open>step and stepInternal\<close>

text \<open>
  Lines 889 to 934 of \<open>stepInternal\<close>: the flag reset and the change of the container
  height towards its target, or the expansion after an explosion.
\<close>

definition adjustContainerHeight :: "real \<Rightarrow> MultipleParticleModel \<Rightarrow> MultipleParticleModel" where
  "adjustContainerHeight dt model0 =
     (let model = model0\<lparr>particleInjectedThisStep := False\<rparr>
      in if \<not> isExploded model then
           (if targetContainerHeight model \<noteq> particleContainerHeight model then
              (let change = targetContainerHeight model - particleContainerHeight model;
                   model1 =
                     (if change > 0 then
                        (let change1 = min change (MAX_CONTAINER_EXPAND_RATE * dt)
                         in model\<lparr>heightChangeThisStep := change1,
                                   particleContainerHeight :=
                                     min (particleContainerHeight model + change1)
                                         PARTICLE_CONTAINER_INITIAL_HEIGHT\<rparr>)
                      else
                        (let change1 = max change (- MAX_CONTAINER_SHRINK_RATE * dt)
                         in model\<lparr>heightChangeThisStep := change1,
                                   particleContainerHeight :=
                                     max (particleContainerHeight model + change1)
                                         MIN_ALLOWABLE_CONTAINER_HEIGHT\<rparr>))
               in model1\<lparr>normalizedContainerHeight :=
                            particleContainerHeight model1 / particleDiameter model1,
                          normalizedLidVelocityY :=
                            (heightChangeThisStep model1 / particleDiameter model1) / dt\<rparr>)
            else model\<lparr>heightChangeThisStep := 0, normalizedLidVelocityY := 0\<rparr>)
         else
           (let model1 = model\<lparr>heightChangeThisStep := POST_EXPLOSION_CONTAINER_EXPANSION_RATE * dt\<rparr>
            in if particleContainerHeight model1 < PARTICLE_CONTAINER_INITIAL_HEIGHT * 3 then
                 model1\<lparr>particleContainerHeight :=
                           particleContainerHeight model1 + POST_EXPLOSION_CONTAINER_EXPANSION_RATE * dt\<rparr>
               else model1))"

text \<open>
  The rest of \<open>stepInternal\<close> (lines 936 to 1034) computes the number of
  particle-engine steps from \<open>dt\<close>, injects a queued molecule, runs the particle engine,
  syncs the particle positions, runs a thermostat and moves the temperature set point. Of
  the state modelled here it assigns \<open>residualTime\<close> (lines 949 and 957), \<open>particles\<close>
  and \<open>particleInjectedThisStep\<close> (\<open>injectMoleculeInternal\<close>), \<open>isExploded\<close> (the
  call \<open>setContainerExploded( true )\<close> of \<open>updatePressure\<close>) and the set point and the
  targets of the thermostats (\<open>setTemperature\<close> and lines 1031 to 1033); it assigns none
  of the fields of the container. It works through the data set, the isokinetic thermostat
  and the pressure queue, which are defined outside the files modelled here, so it is the
  parameter \<open>engine\<close>: called with \<open>dt\<close> and the model, it returns the values of the
  fields that the rest assigns.
\<close>

record EngineResult =
  engineResidualTime :: real
  engineParticles :: "Vector2 list"
  engineParticleInjected :: bool
  engineIsExploded :: bool
  engineTemperatureSetPoint :: real
  engineIsoKineticThermostat :: "real option"
  engineAndersenThermostat :: "AndersenThermostat option"

definition stepInternal ::
  "(real \<Rightarrow> MultipleParticleModel \<Rightarrow> EngineResult) \<Rightarrow>
   real \<Rightarrow> MultipleParticleModel \<Rightarrow> MultipleParticleModel" where
  "stepInternal engine dt model =
     (let model1 = adjustContainerHeight dt model;
          result = engine dt model1
      in model1\<lparr>residualTime := engineResidualTime result,
                 particles := engineParticles result,
                 particleInjectedThisStep := engineParticleInjected result,
                 isExploded := engineIsExploded result,
                 temperatureSetPoint := engineTemperatureSetPoint result,
                 isoKineticThermostat := engineIsoKineticThermostat result,
                 andersenThermostat := engineAndersenThermostat result\<rparr>)"

definition step ::
  "(real \<Rightarrow> MultipleParticleModel \<Rightarrow> EngineResult) \<Rightarrow>
   real \<Rightarrow> MultipleParticleModel \<Rightarrow> MultipleParticleModel" where
  "step engine dt model = (if isPlaying model then stepInternal engine dt model else model)"

section \<open>DualAtomModel\<close>

text \<open>
  \<open>DualAtomModel.step\<close> (lines 380 to 402), over any model state: \<open>stepInternal\<close> is
  a parameter, \<open>playing\<close> is the field \<open>isPlaying\<close> and \<open>speedIsNormal\<close> says
  whether the field \<open>speed\<close> is \<open>'normal'\<close>.
\<close>

definition dualAtomStep ::
  "(real \<Rightarrow> 'm \<Rightarrow> 'm) \<Rightarrow> bool \<Rightarrow> bool \<Rightarrow> real \<Rightarrow> 'm \<Rightarrow> 'm" where
  "dualAtomStep dualStepInternal playing speedIsNormal simulationTimeStep model =
     (if simulationTimeStep > 1.0 then model
      else if playing then
        dualStepInternal
          (if speedIsNormal then simulationTimeStep * 1.5 else simulationTimeStep * 0.5) model
      else model)"

section \<open>AbstractVerletAlgorithm.updatePressure\<close>

definition PRESSURE_CALC_TIME_WINDOW :: real where
  "PRESSURE_CALC_TIME_WINDOW = 12"

definition EXPLOSION_PRESSURE :: real where
  "EXPLOSION_PRESSURE = 41"

definition EXPLOSION_TIME :: real where
  "EXPLOSION_TIME = 1"

text \<open>
  \<open>updatePressure\<close> uses the methods \<open>add\<close> and \<open>clear\<close> and the field
  \<open>total\<close> of the class \<open>TimeSpanDataQueue\<close>, which is defined outside the files
  modelled here; they are parameters, over any type of queues.
\<close>

record 'q TimeSpanDataQueueOps =
  queueAdd :: "real \<Rightarrow> real \<Rightarrow> 'q \<Rightarrow> 'q"
  queueClear :: "'q \<Rightarrow> 'q"
  queueTotal :: "'q \<Rightarrow> real"

record 'q AbstractVerletAlgorithm =
  pressureProperty :: real
  pressureAccumulatorQueue :: 'q
  timeAboveExplosionPressure :: real

text \<open>
  The pressure value that is accumulated (lines 266 to 270) and the windowed pressure
  \<open>newPressure\<close> that a call computes when the container has not exploded (lines 273
  to 277).
\<close>

definition accumulatedThisStep :: "MultipleParticleModel \<Rightarrow> real \<Rightarrow> real" where
  "accumulatedThisStep model pressureThisStep =
     (if pressureThisStep > 0 \<and> temperatureSetPoint model \<le> toNumber (minModelTemperature model)
      then 0 else pressureThisStep)"

definition windowedPressure ::
  "'q TimeSpanDataQueueOps \<Rightarrow> real \<times> real \<Rightarrow> 'q AbstractVerletAlgorithm \<times> MultipleParticleModel \<Rightarrow> real" where
  "windowedPressure ops call st =
     (case call of (pressureThisStep, dt) \<Rightarrow>
        (case st of (algorithm, model) \<Rightarrow>
           max (queueTotal ops
                  (queueAdd ops (accumulatedThisStep model pressureThisStep) dt
                     (pressureAccumulatorQueue algorithm))
                / PRESSURE_CALC_TIME_WINDOW) 0))"

text \<open>
  The state is the algorithm object and the model it refers to. The assertion of line 255
  is active in assertion-enabled builds only and is not part of the model.
\<close>

definition updatePressure ::
  "'q TimeSpanDataQueueOps \<Rightarrow> real \<times> real \<Rightarrow> 'q AbstractVerletAlgorithm \<times> MultipleParticleModel \<Rightarrow>
   'q AbstractVerletAlgorithm \<times> MultipleParticleModel" where
  "updatePressure ops call st =
     (case call of (pressureThisStep, dt) \<Rightarrow>
        (case st of (algorithm, model) \<Rightarrow>
           if isExploded model then
             (algorithm\<lparr>pressureAccumulatorQueue := queueClear ops (pressureAccumulatorQueue algorithm),
                         pressureProperty := 0\<rparr>, model)
           else
             (let algorithm1 =
                    algorithm\<lparr>pressureAccumulatorQueue :=
                                queueAdd ops (accumulatedThisStep model pressureThisStep) dt
                                  (pressureAccumulatorQueue algorithm)\<rparr>;
                  newPressure = windowedPressure ops call st
              in if newPressure > EXPLOSION_PRESSURE then
                   (let algorithm2 =
                          algorithm1\<lparr>timeAboveExplosionPressure :=
                                       timeAboveExplosionPressure algorithm1 + dt\<rparr>
                    in if timeAboveExplosionPressure algorithm2 > EXPLOSION_TIME then
                         (algorithm2\<lparr>pressureProperty := 0\<rparr>, setContainerExploded True model)
                       else (algorithm2\<lparr>pressureProperty := newPressure\<rparr>, model))
                 else
                   (algorithm1\<lparr>pressureProperty := newPressure, timeAboveExplosionPressure := 0\<rparr>,
                    model))))"

text \<open>
  A run of calls, each given as \<open>(pressureThisStep, dt)\<close>, and the statement that the
  windowed pressure is above the explosion threshold at every call of a run that is made
  before the container has exploded.
\<close>

primrec updatePressureRun ::
  "'q TimeSpanDataQueueOps \<Rightarrow> (real \<times> real) list \<Rightarrow> 'q AbstractVerletAlgorithm \<times> MultipleParticleModel \<Rightarrow>
   'q AbstractVerletAlgorithm \<times> MultipleParticleModel" where
  "updatePressureRun ops [] st = st"
| "updatePressureRun ops (call # calls) st = updatePressureRun ops calls (updatePressure ops call st)"



text \<open>
  Modelled from the spec: the class \<open>TimeSpanDataQueue\<close> is missing from the sources.
  The specification describes it as a moving time window of fixed duration into which the
  momentum transfer of each step is accumulated, the pressure being the accumulated total
  over the window. The queue is the list of entries \<open>(value, dt)\<close>, oldest first;
  adding an entry drops the oldest entries while the time they span exceeds the window.
\<close>

fun trimToWindow :: "real \<Rightarrow> (real \<times> real) list \<Rightarrow> (real \<times> real) list" where
  "trimToWindow window [] = []"
| "trimToWindow window (e # es) =
     (if sum_list (map snd (e # es)) > window then trimToWindow window es else e # es)"

definition windowQueue :: "(real \<times> real) list TimeSpanDataQueueOps" where
  "windowQueue =
     \<lparr>queueAdd = (\<lambda>v dt q. trimToWindow PRESSURE_CALC_TIME_WINDOW (q @ [(v, dt)])),
      queueClear = (\<lambda>q. []),
      queueTotal = (\<lambda>q. sum_list (map fst q))\<rparr>"

section \<open>DiatomicPhaseStateChanger.setPhase\<close>

text \<open>
  The phase identifiers are the constants \<open>PHASE_SOLID\<close>, \<open>PHASE_LIQUID\<close> and
  \<open>PHASE_GAS\<close> of \<open>AbstractPhaseStateChanger\<close>; \<open>PHASE_OTHER\<close> is any argument that
  matches no \<open>case\<close> of the \<open>switch\<close>.
\<close>

datatype PhaseID = PHASE_SOLID | PHASE_LIQUID | PHASE_GAS | PHASE_OTHER

text \<open>
  The operations that \<open>setPhase\<close> calls on the model and on itself, over any model state.
  \<open>setPhaseSolid\<close>, \<open>setPhaseLiquid\<close> and \<open>setPhaseGas\<close> (lines 75 to 231) place the
  molecules with random velocities and contain no call of the model's \<open>step\<close>;
  \<open>syncAtoms\<close> is the assignment to \<open>numberOfSafeMolecules\<close> followed by
  \<open>updateAtomPositions\<close>; \<open>modelStep\<close> is the model's \<open>step\<close>, called without an
  argument. Each is taken as an operation that returns.
\<close>

record 'm PhaseChangerOps =
  setPhaseSolid :: "'m \<Rightarrow> 'm"
  setPhaseLiquid :: "'m \<Rightarrow> 'm"
  setPhaseGas :: "'m \<Rightarrow> 'm"
  syncAtoms :: "'m \<Rightarrow> 'm"
  modelStep :: "'m \<Rightarrow> 'm"

text \<open>
  The loop of lines 68 to 70. Its state is the model and the number of calls of
  \<open>step\<close> made so far.
\<close>

function postChangeLoop :: "('m \<Rightarrow> 'm) \<Rightarrow> nat \<Rightarrow> nat \<Rightarrow> 'm \<times> nat \<Rightarrow> 'm \<times> nat" where
  "postChangeLoop stepFn i postChangeModelSteps st =
     (if i < postChangeModelSteps then
        postChangeLoop stepFn (Suc i) postChangeModelSteps (stepFn (fst st), Suc (snd st))
      else st)"
  by pat_completeness auto
termination
  by (relation "measure (\<lambda>(stepFn, i, n, st). n - i)") auto

text \<open>\<open>setPhase\<close> returns the model and the number of times it called \<open>step\<close>.\<close>

definition setPhase :: "'m PhaseChangerOps \<Rightarrow> PhaseID \<Rightarrow> 'm \<Rightarrow> 'm \<times> nat" where
  "setPhase ops phaseID model =
     (case (case phaseID of
              PHASE_SOLID \<Rightarrow> (setPhaseSolid ops model, 0)
            | PHASE_LIQUID \<Rightarrow> (setPhaseLiquid ops model, 200)
            | PHASE_GAS \<Rightarrow> (setPhaseGas ops model, 0)
            | PHASE_OTHER \<Rightarrow> (model, 0)) of
        (model1, postChangeModelSteps) \<Rightarrow>
          postChangeLoop (modelStep ops) 0 postChangeModelSteps (syncAtoms ops model1, 0))"

section \<open>Concrete inputs\<close>

text \<open>
  Two atoms one unit apart, under gravity only, the first one moving fast; and the same
  two atoms ten units apart.
\<close>

definition twoAtoms :: MoleculeForceAndMotionDataSet where
  "twoAtoms =
     \<lparr>numberOfAtoms = 2, numberOfMolecules = 2, moleculeMass = 1, moleculeRotationalInertia = 1,
      moleculeCenterOfMassPositions = [Vector2 0 0, Vector2 1 0],
      moleculeVelocities = [Vector2 30 40, Vector2 0 0],
      moleculeForces = [Vector2 0 0, Vector2 0 0],
      nextMoleculeForces = [Vector2 0 (- 0.045), Vector2 0 (- 0.045)],
      moleculeRotationRates = [0, 0]\<rparr>"

text \<open>One atom with the velocity \<open>(2, 10)\<close> and no force on it.\<close>

definition fastAtom :: MoleculeForceAndMotionDataSet where
  "fastAtom =
     \<lparr>numberOfAtoms = 1, numberOfMolecules = 1, moleculeMass = 1, moleculeRotationalInertia = 1,
      moleculeCenterOfMassPositions = [Vector2 5 5],
      moleculeVelocities = [Vector2 2 10],
      moleculeForces = [Vector2 0 0],
      nextMoleculeForces = [Vector2 0 0],
      moleculeRotationRates = [0]\<rparr>"



definition warmThermostat :: AndersenThermostat where
  "warmThermostat = \<lparr>targetTemperature = 0.15, thermostatMinTemperature = 0.005\<rparr>"

text \<open>
  A playing model of neon at the solid temperature with one particle, whose lid has been
  pushed to the lowest target height; an empty pressure window; and values for the
  constants of \<open>SOMConstants\<close>.
\<close>

definition exampleModel :: MultipleParticleModel where
  "exampleModel =
     \<lparr>particleContainerHeight = 10000, targetContainerHeight = 1500, isExploded = False,
      temperatureSetPoint = 0.15, substance = NEON, isPlaying = True,
      particles = [Vector2 0 0], normalizedContainerWidth = 10000,
      normalizedContainerHeight = 10000, normalizedTotalContainerHeight = 10000,
      normalizedLidVelocityY = 0, particleDiameter = 1, minModelTemperature = Some 0.005,
      residualTime = 0, heightChangeThisStep = 0, particleInjectedThisStep = False,
      isoKineticThermostat = Some 0.15,
      andersenThermostat = Some warmThermostat\<rparr>"

text \<open>An engine pass that leaves every field it assigns as it finds it.\<close>

definition quietEngine :: "real \<Rightarrow> MultipleParticleModel \<Rightarrow> EngineResult" where
  "quietEngine dt model =
     \<lparr>engineResidualTime = residualTime model,
      engineParticles = particles model,
      engineParticleInjected = particleInjectedThisStep model,
      engineIsExploded = isExploded model,
      engineTemperatureSetPoint = temperatureSetPoint model,
      engineIsoKineticThermostat = isoKineticThermostat model,
      engineAndersenThermostat = andersenThermostat model\<rparr>"

definition emptyAlgorithm :: "(real \<times> real) list AbstractVerletAlgorithm" where
  "emptyAlgorithm =
     \<lparr>pressureProperty = 0, pressureAccumulatorQueue = [], timeAboveExplosionPressure = 0\<rparr>"

definition exampleConstants :: SOMConstants where
  "exampleConstants =
     \<lparr>TRIPLE_POINT_MONATOMIC_MODEL_TEMPERATURE = 0.26,
      CRITICAL_POINT_MONATOMIC_MODEL_TEMPERATURE = 0.8,
      TRIPLE_POINT_DIATOMIC_MODEL_TEMPERATURE = 0.28,
      CRITICAL_POINT_DIATOMIC_MODEL_TEMPERATURE = 0.8,
      TRIPLE_POINT_WATER_MODEL_TEMPERATURE = 0.29,
      CRITICAL_POINT_WATER_MODEL_TEMPERATURE = 0.8,
      NEON_TRIPLE_POINT_IN_KELVIN = 23,
      NEON_CRITICAL_POINT_IN_KELVIN = 44,
      ARGON_TRIPLE_POINT_IN_KELVIN = 75,
      ARGON_CRITICAL_POINT_IN_KELVIN = 151,
      O2_TRIPLE_POINT_IN_KELVIN = 54,
      O2_CRITICAL_POINT_IN_KELVIN = 155,
      WATER_TRIPLE_POINT_IN_KELVIN = 273,
      WATER_CRITICAL_POINT_IN_KELVIN = 647\<rparr>"

section \<open>Properties of the pairwise force pass\<close>



lemma slot_Some_iff: "slot xs i = Some v \<longleftrightarrow> i < length xs \<and> v = xs ! i"
  by (auto simp: slot_def)

lemma sum_list_update_real:
  fixes xs :: "real list"
  shows "k < length xs \<Longrightarrow> sum_list (xs[k := v]) = sum_list xs + v - xs ! k"
  by (induction xs arbitrary: k) (auto split: nat.splits)

lemma totalX_update:
  "i < length vs \<Longrightarrow> totalX (vs[i := v]) = totalX vs + vecX v - vecX (vs ! i)"
  by (simp add: totalX_def map_update sum_list_update_real)

lemma totalY_update:
  "i < length vs \<Longrightarrow> totalY (vs[i := v]) = totalY vs + vecY v - vecY (vs ! i)"
  by (simp add: totalY_def map_update sum_list_update_real)

lemma interactPair_cases:
  assumes "interactPair epsilon posI i j positions forces = Some forces'"
  shows "forces' = forces \<or>
         (\<exists>fx fy. i < length forces \<and> j < length forces \<and>
            forces' = forces[i := addXY (forces ! i) fx fy,
                             j := subtractXY (forces[i := addXY (forces ! i) fx fy] ! j) fx fy])"
  using assms
  by (auto simp: interactPair_def Let_def slot_Some_iff split: option.splits if_splits prod.splits)

lemma interactPair_totals:
  assumes "interactPair epsilon posI i j positions forces = Some forces'" and "i \<noteq> j"
  shows "totalX forces' = totalX forces \<and> totalY forces' = totalY forces \<and>
         length forces' = length forces"
  using interactPair_cases [OF assms(1)] assms(2)
  by (auto simp: totalX_update totalY_update addXY_def subtractXY_def)

lemma interactPair_returns:
  assumes "j < length positions" and "i < length forces" and "j < length forces"
  shows "\<exists>forces'. interactPair epsilon posI i j positions forces = Some forces'"
  using assms
  by (auto simp: interactPair_def Let_def slot_def split: prod.splits)

declare innerLoop.simps [simp del] outerLoop.simps [simp del]

lemma innerLoop_totals:
  "innerLoop epsilon posI i j n positions forces = Some forces' \<Longrightarrow> i < j \<Longrightarrow>
   totalX forces' = totalX forces \<and> totalY forces' = totalY forces \<and>
   length forces' = length forces"
proof (induction epsilon posI i j n positions forces rule: innerLoop.induct)
  case (1 epsilon posI i j n positions forces)
  show ?case
  proof (cases "j < n")
    case False
    with "1.prems" show ?thesis by (simp add: innerLoop.simps)
  next
    case True
    with "1.prems" obtain mid where
      mid: "interactPair epsilon posI i j positions forces = Some mid" and
      rest: "innerLoop epsilon posI i (Suc j) n positions mid = Some forces'"
      by (subst (asm) innerLoop.simps) (auto split: option.splits)
    from "1.IH" [OF True mid rest] "1.prems"(2) interactPair_totals [OF mid]
    show ?thesis by simp
  qed
qed

lemma innerLoop_returns:
  "n \<le> length positions \<Longrightarrow> n \<le> length forces \<Longrightarrow> i < j \<Longrightarrow>
   \<exists>forces'. innerLoop epsilon posI i j n positions forces = Some forces'"
proof (induction epsilon posI i j n positions forces rule: innerLoop.induct)
  case (1 epsilon posI i j n positions forces)
  show ?case
  proof (cases "j < n")
    case False
    then show ?thesis by (simp add: innerLoop.simps)
  next
    case True
    with "1.prems" obtain mid where
      mid: "interactPair epsilon posI i j positions forces = Some mid"
      using interactPair_returns [of j positions i forces epsilon posI] by auto
    have len: "length mid = length forces"
      using interactPair_totals [OF mid] "1.prems"(3) by simp
    from "1.IH" [OF True mid] "1.prems" len
    obtain forces' where "innerLoop epsilon posI i (Suc j) n positions mid = Some forces'"
      by auto
    with True mid show ?thesis by (subst innerLoop.simps) simp
  qed
qed

lemma outerLoop_totals:
  "outerLoop epsilon i n positions forces = Some forces' \<Longrightarrow>
   totalX forces' = totalX forces \<and> totalY forces' = totalY forces \<and>
   length forces' = length forces"
proof (induction epsilon i n positions forces rule: outerLoop.induct)
  case (1 epsilon i n positions forces)
  show ?case
  proof (cases "i < n")
    case False
    with "1.prems" show ?thesis by (simp add: outerLoop.simps)
  next
    case True
    with "1.prems" obtain posI mid where
      posI: "slot positions i = Some posI" and
      mid: "innerLoop epsilon posI i (Suc i) n positions forces = Some mid" and
      rest: "outerLoop epsilon (Suc i) n positions mid = Some forces'"
      by (subst (asm) outerLoop.simps) (auto split: option.splits)
    from "1.IH" [OF True posI mid rest] innerLoop_totals [OF mid]
    show ?thesis by simp
  qed
qed

lemma outerLoop_returns:
  "n \<le> length positions \<Longrightarrow> n \<le> length forces \<Longrightarrow>
   \<exists>forces'. outerLoop epsilon i n positions forces = Some forces'"
proof (induction epsilon i n positions forces rule: outerLoop.induct)
  case (1 epsilon i n positions forces)
  show ?case
  proof (cases "i < n")
    case False
    then show ?thesis by (simp add: outerLoop.simps)
  next
    case True
    with "1.prems" have posI: "slot positions i = Some (positions ! i)"
      by (simp add: slot_def)
    from "1.prems" obtain mid where
      mid: "innerLoop epsilon (positions ! i) i (Suc i) n positions forces = Some mid"
      using innerLoop_returns [of n positions forces i "Suc i"] by auto
    have len: "length mid = length forces"
      using innerLoop_totals [OF mid] by simp
    from "1.IH" [OF True posI mid] "1.prems" len
    obtain forces' where "outerLoop epsilon (Suc i) n positions mid = Some forces'"
      by auto
    with True posI mid show ?thesis by (subst outerLoop.simps) simp
  qed
qed

text \<open>
  The pass on two atoms one unit apart: the first is pushed by 24 in the negative x
  direction and the second by 24 in the positive x direction.
\<close>

lemma updateInteractionForces_example:
  "updateInteractionForces 1 twoAtoms =
     Some (twoAtoms\<lparr>nextMoleculeForces := [Vector2 (- 24) (- 0.045), Vector2 24 (- 0.045)]\<rparr>)"
  by (simp add: updateInteractionForces_def twoAtoms_def outerLoop.simps innerLoop.simps
        interactPair_def slot_def handleCoincident_def clampedDistanceSqrd_def pairForce_def
        MIN_DISTANCE_SQUARED_def PARTICLE_INTERACTION_DISTANCE_THRESH_SQRD_def
        addXY_def subtractXY_def Let_def)

text \<open>
  In exact real arithmetic the pass leaves the total of the next-step forces as it finds
  it, in each component.
\<close>

lemma updateInteractionForces_totals:
  assumes "populated moleculeDataSet"
  shows "\<exists>dataSet'. updateInteractionForces epsilon moleculeDataSet = Some dataSet' \<and>
           totalX (nextMoleculeForces dataSet') = totalX (nextMoleculeForces moleculeDataSet) \<and>
           totalY (nextMoleculeForces dataSet') = totalY (nextMoleculeForces moleculeDataSet)"
proof -
  from assms obtain forces' where
    run: "outerLoop epsilon 0 (numberOfMolecules moleculeDataSet)
            (moleculeCenterOfMassPositions moleculeDataSet)
            (nextMoleculeForces moleculeDataSet) = Some forces'"
    using outerLoop_returns [of "numberOfMolecules moleculeDataSet"
        "moleculeCenterOfMassPositions moleculeDataSet" "nextMoleculeForces moleculeDataSet"
        epsilon 0]
    by (auto simp: populated_def)
  from outerLoop_totals [OF run] run show ?thesis
    by (simp add: updateInteractionForces_def)
qed












text \<open>
  Claim C9. The squared distance that reaches the test \<open>distanceSqrd === 0\<close> is the
  maximum of the computed value and \<open>MIN_DISTANCE_SQUARED\<close>, so it is never zero, and
  the statement guarded by that test leaves \<open>dx\<close>, \<open>dy\<close> and \<open>distanceSqrd\<close> as
  they are: its branch is never taken.
\<close>

theorem coincident_branch_unreachable:
  "clampedDistanceSqrd dx dy \<noteq> 0 \<and>
   MIN_DISTANCE_SQUARED \<le> clampedDistanceSqrd dx dy \<and>
   handleCoincident (dx, dy, clampedDistanceSqrd dx dy) = (dx, dy, clampedDistanceSqrd dx dy)"
proof -
  have "MIN_DISTANCE_SQUARED \<le> clampedDistanceSqrd dx dy"
    by (simp add: clampedDistanceSqrd_def)
  moreover have "0 < MIN_DISTANCE_SQUARED"
    by (simp add: MIN_DISTANCE_SQUARED_def)
  ultimately show ?thesis
    by (simp add: handleCoincident_def)
qed

section \<open>Properties of the velocity pass\<close>

subsection \<open>The length of a capped velocity in an accurate arithmetic\<close>

lemma within_relative_error:
  fixes r c u :: real
  assumes "\<bar>r - c\<bar> \<le> u * \<bar>c\<bar>" and "0 \<le> c"
  shows "(1 - u) * c \<le> r" and "r \<le> (1 + u) * c"
  using assms by (simp_all add: abs_le_iff algebra_simps)

lemma abs_within_relative_error:
  fixes r c u :: real
  assumes "\<bar>r - c\<bar> \<le> u * \<bar>c\<bar>"
  shows "\<bar>r\<bar> \<le> (1 + u) * \<bar>c\<bar>"
proof -
  have "\<bar>r\<bar> \<le> \<bar>r - c\<bar> + \<bar>c\<bar>" by linarith
  with assms show ?thesis by (simp add: algebra_simps)
qed

lemma euclideanLength_nonneg: "0 \<le> euclideanLength v"
  by (simp add: euclideanLength_def)

lemma magnitude_bounds:
  assumes acc: "accurateTo u ar" and u: "0 \<le> u" "u < 1"
  shows "(1 - u)\<^sup>2 * euclideanLength v \<le> magnitude ar v"
proof -
  let ?x = "vecX v" and ?y = "vecY v"
  let ?A = "mulOp ar ?x ?x" and ?B = "mulOp ar ?y ?y"
  let ?S = "addOp ar ?A ?B"
  let ?n2 = "?x * ?x + ?y * ?y"
  have n2: "0 \<le> ?n2" by simp
  from acc have mul: "\<And>a b. \<bar>mulOp ar a b - a * b\<bar> \<le> u * \<bar>a * b\<bar>"
    and add: "\<And>a b. \<bar>addOp ar a b - (a + b)\<bar> \<le> u * \<bar>a + b\<bar>"
    and sq: "\<And>a. 0 \<le> a \<Longrightarrow> \<bar>sqrtOp ar a - sqrt a\<bar> \<le> u * sqrt a"
    by (simp_all add: accurateTo_def)
  have A: "(1 - u) * (?x * ?x) \<le> ?A"
    by (rule within_relative_error(1) [OF mul]) simp
  have B: "(1 - u) * (?y * ?y) \<le> ?B"
    by (rule within_relative_error(1) [OF mul]) simp
  from A B have AB: "(1 - u) * ?n2 \<le> ?A + ?B"
    by (simp add: algebra_simps)
  have AB0: "0 \<le> ?A + ?B"
  proof -
    have "0 \<le> (1 - u) * ?n2" using u n2 by (intro mult_nonneg_nonneg) simp_all
    with AB show ?thesis by linarith
  qed
  have S1: "(1 - u) * (?A + ?B) \<le> ?S"
    by (rule within_relative_error(1) [OF add AB0])
  have S: "(1 - u)\<^sup>2 * ?n2 \<le> ?S"
  proof -
    have "(1 - u) * ((1 - u) * ?n2) \<le> (1 - u) * (?A + ?B)"
      using AB u by (intro mult_left_mono) simp_all
    with S1 show ?thesis by (simp add: power2_eq_square algebra_simps)
  qed
  have S0: "0 \<le> ?S"
  proof -
    have "0 \<le> (1 - u) * (?A + ?B)" using u AB0 by (intro mult_nonneg_nonneg) simp_all
    with S1 show ?thesis by linarith
  qed
  have "sqrt ((1 - u)\<^sup>2 * ?n2) \<le> sqrt ?S"
    using S by simp
  then have rootS: "(1 - u) * euclideanLength v \<le> sqrt ?S"
    using u by (simp add: real_sqrt_mult euclideanLength_def)
  have "\<bar>sqrtOp ar ?S - sqrt ?S\<bar> \<le> u * \<bar>sqrt ?S\<bar>"
    using sq [OF S0] S0 by simp
  then have "(1 - u) * sqrt ?S \<le> sqrtOp ar ?S"
    by (rule within_relative_error(1)) (simp add: S0)
  moreover have "(1 - u) * ((1 - u) * euclideanLength v) \<le> (1 - u) * sqrt ?S"
    using rootS u by (intro mult_left_mono) simp_all
  ultimately show ?thesis
    by (simp add: magnitude_def power2_eq_square algebra_simps)
qed

lemma multiplyScalar_length:
  assumes acc: "accurateTo u ar" and u: "0 \<le> u"
  shows "euclideanLength (multiplyScalar ar v s) \<le> (1 + u) * \<bar>s\<bar> * euclideanLength v"
proof -
  let ?x = "vecX v" and ?y = "vecY v"
  let ?rx = "mulOp ar ?x s" and ?ry = "mulOp ar ?y s"
  let ?k = "(1 + u) * \<bar>s\<bar>"
  from acc have mul: "\<And>a b. \<bar>mulOp ar a b - a * b\<bar> \<le> u * \<bar>a * b\<bar>"
    by (simp add: accurateTo_def)
  have k: "0 \<le> ?k" using u by simp
  have rx: "\<bar>?rx\<bar> \<le> ?k * \<bar>?x\<bar>"
    using abs_within_relative_error [OF mul, of ?x s] by (simp add: abs_mult algebra_simps)
  have ry: "\<bar>?ry\<bar> \<le> ?k * \<bar>?y\<bar>"
    using abs_within_relative_error [OF mul, of ?y s] by (simp add: abs_mult algebra_simps)
  have "?rx * ?rx = \<bar>?rx\<bar> * \<bar>?rx\<bar>" by simp
  also have "\<dots> \<le> (?k * \<bar>?x\<bar>) * (?k * \<bar>?x\<bar>)"
    using rx by (intro mult_mono) simp_all
  also have "\<dots> = ?k\<^sup>2 * (\<bar>?x\<bar> * \<bar>?x\<bar>)"
    by (simp add: power2_eq_square)
  also have "\<dots> = ?k\<^sup>2 * (?x * ?x)"
    by simp
  finally have sx: "?rx * ?rx \<le> ?k\<^sup>2 * (?x * ?x)" .
  have "?ry * ?ry = \<bar>?ry\<bar> * \<bar>?ry\<bar>" by simp
  also have "\<dots> \<le> (?k * \<bar>?y\<bar>) * (?k * \<bar>?y\<bar>)"
    using ry by (intro mult_mono) simp_all
  also have "\<dots> = ?k\<^sup>2 * (\<bar>?y\<bar> * \<bar>?y\<bar>)"
    by (simp add: power2_eq_square)
  also have "\<dots> = ?k\<^sup>2 * (?y * ?y)"
    by simp
  finally have sy: "?ry * ?ry \<le> ?k\<^sup>2 * (?y * ?y)" .
  from sx sy have "?rx * ?rx + ?ry * ?ry \<le> ?k\<^sup>2 * (?x * ?x + ?y * ?y)"
    by (simp add: algebra_simps)
  then have "sqrt (?rx * ?rx + ?ry * ?ry) \<le> sqrt (?k\<^sup>2 * (?x * ?x + ?y * ?y))"
    by simp
  also have "\<dots> = ?k * euclideanLength v"
    using k by (simp add: real_sqrt_mult euclideanLength_def)
  finally show ?thesis
    by (simp add: euclideanLength_def multiplyScalar_def)
qed

lemma roundingBound_ge: "0 \<le> u \<Longrightarrow> u < 1 \<Longrightarrow> 10 / (1 - u)\<^sup>2 \<le> roundingBound u"
proof -
  assume u: "0 \<le> u" "u < 1"
  have "1 \<le> (1 + u)\<^sup>2" using u by (simp add: power2_eq_square algebra_simps mult_nonneg_nonneg)
  then have "10 * 1 / (1 - u)\<^sup>2 \<le> 10 * (1 + u)\<^sup>2 / (1 - u)\<^sup>2"
    by (intro divide_right_mono mult_left_mono) simp_all
  then show ?thesis by (simp add: roundingBound_def power_divide)
qed

lemma length_le_magnitude:
  assumes acc: "accurateTo u ar" and u: "0 \<le> u" "u < 1"
  shows "euclideanLength v \<le> magnitude ar v / (1 - u)\<^sup>2"
proof -
  have pos: "0 < (1 - u)\<^sup>2" using u by simp
  from magnitude_bounds [OF acc u, of v] pos show ?thesis
    by (simp add: pos_le_divide_eq mult.commute)
qed

lemma cappedVelocity_bound:
  assumes acc: "accurateTo u ar" and u: "0 \<le> u" "u < 1"
  shows "euclideanLength (cappedVelocity ar timeStepHalf atomVelocity moleculeForce nextForce)
           \<le> roundingBound u"
proof -
  let ?v = "verletVelocity ar timeStepHalf atomVelocity moleculeForce nextForce"
  let ?m = "magnitude ar ?v"
  have pos: "0 < (1 - u)\<^sup>2" using u by simp
  show ?thesis
  proof (cases "?m > 10")
    case False
    then have "?m / (1 - u)\<^sup>2 \<le> 10 / (1 - u)\<^sup>2"
      using pos by (intro divide_right_mono) simp_all
    with length_le_magnitude [OF acc u, of ?v] roundingBound_ge [OF u] False
    show ?thesis by (simp add: cappedVelocity_def Let_def)
  next
    case True
    let ?s = "divOp ar 10 ?m"
    from acc have dv: "\<And>a b. \<bar>divOp ar a b - a / b\<bar> \<le> u * \<bar>a / b\<bar>"
      by (simp add: accurateTo_def)
    from True have mpos: "0 < ?m" by simp
    have s: "\<bar>?s\<bar> \<le> (1 + u) * (10 / ?m)"
      using abs_within_relative_error [OF dv, of 10 ?m] mpos by simp
    have len: "euclideanLength ?v / ?m \<le> 1 / (1 - u)\<^sup>2"
      using length_le_magnitude [OF acc u, of ?v] mpos pos
      by (simp add: field_simps)
    have "euclideanLength (setMagnitude ar ?v 10) \<le> (1 + u) * \<bar>?s\<bar> * euclideanLength ?v"
      using multiplyScalar_length [OF acc u(1), of ?v ?s] by (simp add: setMagnitude_def)
    also have "\<dots> \<le> (1 + u) * ((1 + u) * (10 / ?m)) * euclideanLength ?v"
      using s u euclideanLength_nonneg [of ?v]
      by (intro mult_right_mono mult_left_mono) simp_all
    also have "\<dots> = 10 * (1 + u)\<^sup>2 * (euclideanLength ?v / ?m)"
      by (simp add: power2_eq_square)
    also have "\<dots> \<le> 10 * (1 + u)\<^sup>2 * (1 / (1 - u)\<^sup>2)"
      using len by (intro mult_left_mono) simp_all
    also have "\<dots> = roundingBound u"
      by (simp add: roundingBound_def power_divide)
    finally show ?thesis
      using True by (simp add: cappedVelocity_def Let_def)
  qed
qed

subsection \<open>Double arithmetic\<close>

text \<open>
  Rounding to a double changes a number by at most the fraction \<open>1 / 2 ^ 53\<close> of its
  size, so double arithmetic is accurate to that; and a number that lies in a binade and
  within a half of a multiple of the spacing of that binade rounds to that multiple.
\<close>

lemma roundHalfEven_error: "\<bar>of_int (roundHalfEven y) - y\<bar> \<le> 1 / 2"
proof -
  have "of_int \<lfloor>y\<rfloor> \<le> y" "y < of_int \<lfloor>y\<rfloor> + 1" by linarith+
  then show ?thesis
    by (auto simp: roundHalfEven_def Let_def)
qed

lemma roundHalfEven_nearest:
  assumes "\<bar>of_int n - y\<bar> < 1 / 2"
  shows "roundHalfEven y = n"
proof -
  from roundHalfEven_error [of y] assms
  have "\<bar>of_int (roundHalfEven y) - (of_int n :: real)\<bar> < 1" by linarith
  then have "\<bar>of_int (roundHalfEven y - n) :: real\<bar> < 1" by simp
  then have "\<bar>roundHalfEven y - n\<bar> < 1"
    by (metis of_int_abs of_int_less_1_iff)
  then show ?thesis by linarith
qed

lemma exponent_bounds:
  assumes "x \<noteq> 0"
  shows "2 powi \<lfloor>log 2 \<bar>x\<bar>\<rfloor> \<le> \<bar>x\<bar>"
proof -
  have pos: "0 < \<bar>x\<bar>" using assms by simp
  have "of_int \<lfloor>log 2 \<bar>x\<bar>\<rfloor> \<le> log 2 \<bar>x\<bar>" by linarith
  then have "2 powr of_int \<lfloor>log 2 \<bar>x\<bar>\<rfloor> \<le> 2 powr log 2 \<bar>x\<bar>"
    by (simp add: powr_mono)
  also have "\<dots> = \<bar>x\<bar>" using pos by simp
  finally show ?thesis by (simp add: powr_real_of_int')
qed

lemma roundToDouble_error: "\<bar>roundToDouble x - x\<bar> \<le> \<bar>x\<bar> / 2 ^ 53"
proof (cases "x = 0")
  case True
  then show ?thesis by (simp add: roundToDouble_def)
next
  case False
  define e where "e = \<lfloor>log 2 \<bar>x\<bar>\<rfloor>"
  define q :: real where "q = 2 powi (e - 52)"
  have qpos: "0 < q" by (simp add: q_def)
  have q_eq: "q = 2 powi e / 2 ^ 52"
    by (simp add: q_def power_int_diff)
  have q_le: "q \<le> \<bar>x\<bar> / 2 ^ 52"
    using exponent_bounds [OF False] by (simp add: q_eq e_def divide_right_mono)
  have r: "roundToDouble x = sgn x * (q * of_int (roundHalfEven (\<bar>x\<bar> / q)))"
    using False by (simp add: roundToDouble_def Let_def e_def q_def)
  have x_eq: "x = sgn x * (q * (\<bar>x\<bar> / q))"
    using qpos by (simp add: sgn_real_def abs_real_def)
  have "roundToDouble x - x = sgn x * (q * (of_int (roundHalfEven (\<bar>x\<bar> / q)) - \<bar>x\<bar> / q))"
    by (subst (2) x_eq) (simp add: r algebra_simps)
  then have "\<bar>roundToDouble x - x\<bar> = q * \<bar>of_int (roundHalfEven (\<bar>x\<bar> / q)) - \<bar>x\<bar> / q\<bar>"
    using False qpos by (simp add: abs_mult abs_sgn_eq)
  also have "\<dots> \<le> q * (1 / 2)"
    using roundHalfEven_error [of "\<bar>x\<bar> / q"] qpos by (simp add: mult_left_mono)
  also have "\<dots> \<le> \<bar>x\<bar> / 2 ^ 52 * (1 / 2)"
    using q_le by simp
  also have "\<dots> = \<bar>x\<bar> / 2 ^ 53" by simp
  finally show ?thesis .
qed

lemma roundToDouble_eval:
  fixes e :: int
  assumes "x \<noteq> 0" and "2 powi e \<le> \<bar>x\<bar>" and "\<bar>x\<bar> < 2 powi (e + 1)"
    and "\<bar>of_int n - \<bar>x\<bar> / 2 powi (e - 52)\<bar> < 1 / 2"
  shows "roundToDouble x = sgn x * (2 powi (e - 52) * of_int n)"
proof -
  have pos: "0 < \<bar>x\<bar>" using assms(1) by simp
  have "of_int e \<le> log 2 \<bar>x\<bar>"
    using assms(2) pos by (simp add: le_log_iff powr_real_of_int')
  moreover have "log 2 \<bar>x\<bar> < of_int (e + 1)"
    using assms(3) pos by (simp add: log_less_iff powr_real_of_int' del: of_int_add)
  ultimately have "\<lfloor>log 2 \<bar>x\<bar>\<rfloor> = e"
    by (simp add: floor_eq_iff)
  with assms(1,4) show ?thesis
    by (simp add: roundToDouble_def Let_def roundHalfEven_nearest)
qed

lemma doubleArithmetic_accurate: "accurateTo (1 / 2 ^ 53) doubleArithmetic"
proof -
  have r: "\<bar>roundToDouble x - x\<bar> \<le> 1 / 2 ^ 53 * \<bar>x\<bar>" for x
    using roundToDouble_error [of x] by simp
  have s: "\<bar>roundToDouble (sqrt a) - sqrt a\<bar> \<le> 1 / 2 ^ 53 * sqrt a" if "0 \<le> a" for a
    using r [of "sqrt a"] that by simp
  show ?thesis
    unfolding accurateTo_def doubleArithmetic_def Arithmetic.select_convs
    by (intro conjI allI impI r s)
qed

lemma exactArithmetic_accurate: "accurateTo 0 exactArithmetic"
  by (simp add: accurateTo_def exactArithmetic_def)

lemma roundingBound_exact: "roundingBound 0 = 10"
  by (simp add: roundingBound_def)

lemma round_0: "roundToDouble 0 = 0"
  by (simp add: roundToDouble_def)

lemma round_2: "roundToDouble 2 = 2"
  using roundToDouble_eval [of 2 1 "2 ^ 52"] by (simp add: power_int_minus)

lemma round_4: "roundToDouble 4 = 4"
  using roundToDouble_eval [of 4 2 "2 ^ 52"] by (simp add: power_int_minus)

lemma round_10: "roundToDouble 10 = 10"
  using roundToDouble_eval [of 10 3 "10 * 2 ^ 49"] by (simp add: power_int_minus)

lemma round_100: "roundToDouble 100 = 100"
  using roundToDouble_eval [of 100 6 "100 * 2 ^ 46"] by (simp add: power_int_minus)

lemma round_104: "roundToDouble 104 = 104"
  using roundToDouble_eval [of 104 6 "104 * 2 ^ 46"] by (simp add: power_int_minus)

lemma sqrt104_bounds:
  "(5740985595342838 - 1 / 2) / 2 ^ 49 < sqrt 104" "sqrt 104 < (5740985595342838 + 1 / 2) / 2 ^ 49"
  by (rule real_less_rsqrt, simp add: power2_eq_square) (rule real_less_lsqrt, simp_all add: power2_eq_square)

lemma round_sqrt104: "roundToDouble (sqrt 104) = 5740985595342838 / 2 ^ 49"
proof -
  have lo: "8 \<le> sqrt 104"
    by (rule real_le_rsqrt) simp
  have hi: "sqrt 104 < 16"
    by (rule real_less_lsqrt) simp_all
  from sqrt104_bounds have
    "5740985595342838 - 1 / 2 < sqrt 104 * 2 ^ 49" "sqrt 104 * 2 ^ 49 < 5740985595342838 + 1 / 2"
    by (simp_all add: pos_divide_less_eq pos_less_divide_eq)
  then have "\<bar>5740985595342838 - sqrt 104 * 2 ^ 49\<bar> < 1 / 2"
    by linarith
  with lo hi roundToDouble_eval [of "sqrt 104" 3 5740985595342838] show ?thesis
    by (simp add: power_int_minus)
qed

lemma round_scale: "roundToDouble (10 / (5740985595342838 / 2 ^ 49)) = 8832285531296675 / 2 ^ 53"
  using roundToDouble_eval [of "10 / (5740985595342838 / 2 ^ 49)" "- 1" 8832285531296675]
  by (simp add: power_int_minus)

lemma round_x: "roundToDouble (2 * (8832285531296675 / 2 ^ 53)) = 8832285531296675 / 2 ^ 52"
  using roundToDouble_eval [of "2 * (8832285531296675 / 2 ^ 53)" 0 8832285531296675]
  by (simp add: power_int_minus)

lemma round_y: "roundToDouble (10 * (8832285531296675 / 2 ^ 53)) = 5520178457060422 / 2 ^ 49"
  using roundToDouble_eval [of "10 * (8832285531296675 / 2 ^ 53)" 3 5520178457060422]
  by (simp add: power_int_minus)

lemma verlet_fast:
  "verletVelocity doubleArithmetic h (Vector2 2 10) (Vector2 0 0) (Vector2 0 0) = Vector2 2 10"
  by (simp add: verletVelocity_def doubleArithmetic_def round_0 round_2 round_10)

lemma magnitude_fast:
  "magnitude doubleArithmetic (Vector2 2 10) = 5740985595342838 / 2 ^ 49"
  by (simp add: magnitude_def doubleArithmetic_def round_4 round_100 round_104 round_sqrt104)

lemma setMagnitude_fast:
  "setMagnitude doubleArithmetic (Vector2 2 10) 10 =
     Vector2 (8832285531296675 / 2 ^ 52) (5520178457060422 / 2 ^ 49)"
proof -
  have ops: "divOp doubleArithmetic a b = roundToDouble (a / b)"
    "mulOp doubleArithmetic a b = roundToDouble (a * b)" for a b
    by (simp_all add: doubleArithmetic_def)
  show ?thesis
    unfolding setMagnitude_def multiplyScalar_def magnitude_fast ops Vector2.sel
      round_scale round_x round_y ..
qed

lemma capped_fast:
  "cappedVelocity doubleArithmetic h (Vector2 2 10) (Vector2 0 0) (Vector2 0 0) =
     Vector2 (8832285531296675 / 2 ^ 52) (5520178457060422 / 2 ^ 49)"
proof -
  have "(10 :: real) < 5740985595342838 / 2 ^ 49" by simp
  then show ?thesis
    unfolding cappedVelocity_def verlet_fast Let_def magnitude_fast setMagnitude_fast
    by (simp only: if_True)
qed

lemma too_long:
  "10 < euclideanLength (Vector2 (8832285531296675 / 2 ^ 52) (5520178457060422 / 2 ^ 49))"
  unfolding euclideanLength_def Vector2.sel
  by (rule real_less_rsqrt) (simp add: power2_eq_square)

subsection \<open>The pass\<close>

declare velocityLoop.simps [simp del]

lemma velocityLoop_stores:
  "velocityLoop ar h i n nextAtomForces vs fs e = Some (vs', fs', e') \<Longrightarrow>
   length vs' = length vs \<and>
   (\<forall>k. k < i \<longrightarrow> vs' ! k = vs ! k) \<and>
   (\<forall>k. i \<le> k \<and> k < n \<longrightarrow>
      vs' ! k = cappedVelocity ar h (vs ! k) (fs ! k) (nextAtomForces ! k))"
proof (induction ar h i n nextAtomForces vs fs e rule: velocityLoop.induct)
  case (1 ar h i n nextAtomForces vs fs e)
  show ?case
  proof (cases "i < n")
    case False
    with "1.prems" show ?thesis by (auto simp: velocityLoop.simps)
  next
    case True
    with "1.prems" obtain atomVelocity moleculeForce nextForce where
      a: "slot vs i = Some atomVelocity" and
      b: "slot fs i = Some moleculeForce" and
      c: "slot nextAtomForces i = Some nextForce" and
      rest: "velocityLoop ar h (Suc i) n nextAtomForces
               (vs[i := cappedVelocity ar h atomVelocity moleculeForce nextForce])
               (fs[i := Vector2 (vecX nextForce) (vecY nextForce)])
               (addOp ar e (kineticEnergy ar (cappedVelocity ar h atomVelocity moleculeForce nextForce)))
             = Some (vs', fs', e')"
      by (subst (asm) velocityLoop.simps) (auto split: option.splits)
    from a b c have vals: "i < length vs" "atomVelocity = vs ! i" "moleculeForce = fs ! i"
        "nextForce = nextAtomForces ! i"
      by (simp_all add: slot_Some_iff)
    note ih = "1.IH" [OF True a b c rest]
    have len: "length vs' = length vs"
      using ih by simp
    have before: "\<forall>k. k < i \<longrightarrow> vs' ! k = vs ! k"
      using ih by simp
    have at_i: "vs' ! i = cappedVelocity ar h (vs ! i) (fs ! i) (nextAtomForces ! i)"
      using ih vals by simp
    have after: "\<forall>k. i \<le> k \<and> k < n \<longrightarrow>
        vs' ! k = cappedVelocity ar h (vs ! k) (fs ! k) (nextAtomForces ! k)"
    proof (intro allI impI)
      fix k assume k: "i \<le> k \<and> k < n"
      show "vs' ! k = cappedVelocity ar h (vs ! k) (fs ! k) (nextAtomForces ! k)"
      proof (cases "k = i")
        case True
        with at_i show ?thesis by simp
      next
        case False
        with k have "Suc i \<le> k \<and> k < n" by simp
        with ih False show ?thesis by simp
      qed
    qed
    from len before after show ?thesis by simp
  qed
qed

lemma velocityLoop_returns:
  "n \<le> length vs \<Longrightarrow> n \<le> length fs \<Longrightarrow> n \<le> length nextAtomForces \<Longrightarrow>
   \<exists>st'. velocityLoop ar h i n nextAtomForces vs fs e = Some st'"
proof (induction ar h i n nextAtomForces vs fs e rule: velocityLoop.induct)
  case (1 ar h i n nextAtomForces vs fs e)
  show ?case
  proof (cases "i < n")
    case False
    then show ?thesis by (simp add: velocityLoop.simps)
  next
    case True
    with "1.prems" have
      a: "slot vs i = Some (vs ! i)" and
      b: "slot fs i = Some (fs ! i)" and
      c: "slot nextAtomForces i = Some (nextAtomForces ! i)"
      by (simp_all add: slot_def)
    from "1.IH" [OF True a b c] "1.prems" True a b c show ?thesis
      by (subst velocityLoop.simps) simp
  qed
qed

lemma updateVelocities_stores:
  assumes "monatomicPopulated moleculeDataSet"
  shows "\<exists>dataSet' temperature.
           updateVelocitiesAndRotationRates ar modelMinTemperature moleculeDataSet timeStep =
             Some (dataSet', temperature) \<and>
           numberOfMolecules dataSet' = numberOfMolecules moleculeDataSet \<and>
           (\<forall>i < numberOfMolecules moleculeDataSet.
              moleculeVelocities dataSet' ! i =
                cappedVelocity ar (divOp ar timeStep 2)
                  (moleculeVelocities moleculeDataSet ! i) (moleculeForces moleculeDataSet ! i)
                  (nextMoleculeForces moleculeDataSet ! i))"
proof -
  from assms obtain st' where
    "velocityLoop ar (divOp ar timeStep 2) 0 (numberOfAtoms moleculeDataSet)
       (nextMoleculeForces moleculeDataSet) (moleculeVelocities moleculeDataSet)
       (moleculeForces moleculeDataSet) 0 = Some st'"
    using velocityLoop_returns [of "numberOfAtoms moleculeDataSet"
        "moleculeVelocities moleculeDataSet" "moleculeForces moleculeDataSet"
        "nextMoleculeForces moleculeDataSet" ar "divOp ar timeStep 2" 0 0]
    by (auto simp: monatomicPopulated_def)
  then obtain vs fs ke where
    run: "velocityLoop ar (divOp ar timeStep 2) 0 (numberOfAtoms moleculeDataSet)
       (nextMoleculeForces moleculeDataSet) (moleculeVelocities moleculeDataSet)
       (moleculeForces moleculeDataSet) 0 = Some (vs, fs, ke)"
    by (cases st') auto
  from velocityLoop_stores [OF run]
  have "\<forall>k < numberOfAtoms moleculeDataSet.
          vs ! k = cappedVelocity ar (divOp ar timeStep 2)
                  (moleculeVelocities moleculeDataSet ! k) (moleculeForces moleculeDataSet ! k)
                  (nextMoleculeForces moleculeDataSet ! k)"
    by simp
  with run assms show ?thesis
    by (simp add: updateVelocitiesAndRotationRates_def monatomicPopulated_def)
qed

text \<open>
  Claim C6, as amended. On a monatomic data set whose arrays hold its atoms, in an
  arithmetic that is accurate to \<open>u\<close>, the velocity pass returns, and every molecule's
  velocity is then the capped velocity computed from its old velocity and its two forces:
  the velocity-Verlet update, rescaled by \<open>setMagnitude( 10 )\<close> when its computed
  magnitude exceeds 10. The length of that velocity is at most
  \<open>10 ((1 + u) / (1 - u))\<^sup>2\<close>: at most 10 in exact arithmetic, and at most 10 up to a few
  units in the last place in double arithmetic, where \<open>u = 1 / 2 ^ 53\<close>.
\<close>

theorem velocity_capped_up_to_rounding:
  assumes "monatomicPopulated moleculeDataSet"
    and "accurateTo u ar" and "0 \<le> u" and "u < 1"
  shows "\<exists>dataSet' temperature.
           updateVelocitiesAndRotationRates ar modelMinTemperature moleculeDataSet timeStep =
             Some (dataSet', temperature) \<and>
           numberOfMolecules dataSet' = numberOfMolecules moleculeDataSet \<and>
           (\<forall>i < numberOfMolecules moleculeDataSet.
              moleculeVelocities dataSet' ! i =
                cappedVelocity ar (divOp ar timeStep 2)
                  (moleculeVelocities moleculeDataSet ! i) (moleculeForces moleculeDataSet ! i)
                  (nextMoleculeForces moleculeDataSet ! i) \<and>
              euclideanLength (moleculeVelocities dataSet' ! i) \<le> roundingBound u)"
proof -
  from updateVelocities_stores [OF assms(1), of ar modelMinTemperature timeStep]
  obtain dataSet' temperature where
    run: "updateVelocitiesAndRotationRates ar modelMinTemperature moleculeDataSet timeStep =
             Some (dataSet', temperature)" and
    n: "numberOfMolecules dataSet' = numberOfMolecules moleculeDataSet" and
    stored: "\<forall>i < numberOfMolecules moleculeDataSet.
              moleculeVelocities dataSet' ! i =
                cappedVelocity ar (divOp ar timeStep 2)
                  (moleculeVelocities moleculeDataSet ! i) (moleculeForces moleculeDataSet ! i)
                  (nextMoleculeForces moleculeDataSet ! i)"
    by blast
  from stored cappedVelocity_bound [OF assms(2-4)]
  have "\<forall>i < numberOfMolecules moleculeDataSet.
          euclideanLength (moleculeVelocities dataSet' ! i) \<le> roundingBound u"
    by simp
  with run n stored show ?thesis by blast
qed

theorem velocity_capped_up_to_rounding_witness:
  "monatomicPopulated fastAtom \<and> accurateTo (1 / 2 ^ 53) doubleArithmetic \<and>
   (0 :: real) \<le> 1 / 2 ^ 53 \<and> (1 :: real) / 2 ^ 53 < 1 \<and>
   (\<exists>dataSet' temperature.
      updateVelocitiesAndRotationRates doubleArithmetic None fastAtom (3602879701896397 / 2 ^ 57) =
        Some (dataSet', temperature) \<and>
      moleculeVelocities dataSet' ! 0 =
        Vector2 (8832285531296675 / 2 ^ 52) (5520178457060422 / 2 ^ 49) \<and>
      euclideanLength (moleculeVelocities dataSet' ! 0) \<le> roundingBound (1 / 2 ^ 53))"
proof -
  have p: "monatomicPopulated fastAtom"
    by (simp add: monatomicPopulated_def fastAtom_def)
  have u: "(0 :: real) \<le> 1 / 2 ^ 53" "(1 :: real) / 2 ^ 53 < 1"
    by simp_all
  from velocity_capped_up_to_rounding [OF p doubleArithmetic_accurate u, of None
         "3602879701896397 / 2 ^ 57"]
  obtain dataSet' temperature where
    run: "updateVelocitiesAndRotationRates doubleArithmetic None fastAtom
            (3602879701896397 / 2 ^ 57) = Some (dataSet', temperature)" and
    all: "\<forall>i < numberOfMolecules fastAtom.
              moleculeVelocities dataSet' ! i =
                cappedVelocity doubleArithmetic (divOp doubleArithmetic (3602879701896397 / 2 ^ 57) 2)
                  (moleculeVelocities fastAtom ! i) (moleculeForces fastAtom ! i)
                  (nextMoleculeForces fastAtom ! i) \<and>
              euclideanLength (moleculeVelocities dataSet' ! i) \<le> roundingBound (1 / 2 ^ 53)"
    by blast
  have zero: "0 < numberOfMolecules fastAtom"
    by (simp add: fastAtom_def)
  from all zero have
    "moleculeVelocities dataSet' ! 0 =
       cappedVelocity doubleArithmetic (divOp doubleArithmetic (3602879701896397 / 2 ^ 57) 2)
         (moleculeVelocities fastAtom ! 0) (moleculeForces fastAtom ! 0)
         (nextMoleculeForces fastAtom ! 0)" and
    len: "euclideanLength (moleculeVelocities dataSet' ! 0) \<le> roundingBound (1 / 2 ^ 53)"
    by blast+
  then have "moleculeVelocities dataSet' ! 0 =
       Vector2 (8832285531296675 / 2 ^ 52) (5520178457060422 / 2 ^ 49)"
    by (simp add: fastAtom_def capped_fast)
  with p doubleArithmetic_accurate u run len show ?thesis
    by blast
qed

text \<open>
  Claim C6, as stated, fails in double arithmetic. For the atom with velocity
  \<open>(2, 10)\<close>, no force and the time step 0.025 (as a double), the update has the
  computed magnitude 10.198039027185569, the scale \<open>10 / magnitude\<close> rounds to
  0.9805806756909202, and the pass stores the velocity
  \<open>(1.9611613513818404, 9.805806756909202)\<close>, whose length exceeds 10.
\<close>

theorem velocity_cap_exceeded_in_doubles:
  "map_option (\<lambda>result. moleculeVelocities (fst result))
     (updateVelocitiesAndRotationRates doubleArithmetic None fastAtom (3602879701896397 / 2 ^ 57)) =
     Some [Vector2 (8832285531296675 / 2 ^ 52) (5520178457060422 / 2 ^ 49)] \<and>
   10 < euclideanLength (Vector2 (8832285531296675 / 2 ^ 52) (5520178457060422 / 2 ^ 49))"
proof -
  have "map_option (\<lambda>result. moleculeVelocities (fst result))
     (updateVelocitiesAndRotationRates doubleArithmetic None fastAtom (3602879701896397 / 2 ^ 57)) =
     Some [cappedVelocity doubleArithmetic (divOp doubleArithmetic (3602879701896397 / 2 ^ 57) 2)
             (Vector2 2 10) (Vector2 0 0) (Vector2 0 0)]"
    by (simp add: updateVelocitiesAndRotationRates_def fastAtom_def velocityLoop.simps slot_def)
  with too_long show ?thesis
    by (simp only: capped_fast)
qed

section \<open>Properties of the Andersen thermostat\<close>



section \<open>Properties of the model\<close>

text \<open>
  Claim C8. \<open>setTemperature\<close> stores its argument clamped to the range from
  \<open>MIN_TEMPERATURE\<close> to \<open>MAX_TEMPERATURE\<close> in the set point, and stores the
  argument itself, not clamped, as the target temperature of both thermostats.
\<close>

theorem setTemperature_clamps_only_set_point:
  assumes "isoKineticThermostat model = Some target"
    and "andersenThermostat model = Some thermostat"
  shows "temperatureSetPoint (setTemperature t model) =
           (if t > MAX_TEMPERATURE then MAX_TEMPERATURE
            else if t < MIN_TEMPERATURE then MIN_TEMPERATURE else t) \<and>
         MIN_TEMPERATURE \<le> temperatureSetPoint (setTemperature t model) \<and>
         temperatureSetPoint (setTemperature t model) \<le> MAX_TEMPERATURE \<and>
         isoKineticThermostat (setTemperature t model) = Some t \<and>
         andersenThermostat (setTemperature t model) =
           Some (thermostat\<lparr>targetTemperature := t\<rparr>)"
  using assms
  by (simp add: setTemperature_def Let_def MAX_TEMPERATURE_def MIN_TEMPERATURE_def)

theorem setTemperature_clamps_only_set_point_witness:
  "isoKineticThermostat exampleModel = Some 0.15 \<and>
   andersenThermostat exampleModel = Some warmThermostat \<and>
   temperatureSetPoint (setTemperature 100 exampleModel) = 50 \<and>
   isoKineticThermostat (setTemperature 100 exampleModel) = Some 100 \<and>
   map_option targetTemperature (andersenThermostat (setTemperature 100 exampleModel)) = Some 100 \<and>
   MAX_TEMPERATURE < 100"
proof -
  have a: "isoKineticThermostat exampleModel = Some 0.15"
    by (simp add: exampleModel_def)
  have b: "andersenThermostat exampleModel = Some warmThermostat"
    by (simp add: exampleModel_def)
  from setTemperature_clamps_only_set_point [OF a b, of 100] a b show ?thesis
    by (simp add: MAX_TEMPERATURE_def MIN_TEMPERATURE_def)
qed

lemma getTemperatureInKelvin_below_triple_point:
  assumes "particles model \<noteq> []"
    and "toNumber (minModelTemperature model) < temperatureSetPoint model"
    and "temperatureSetPoint model < substanceTriplePoint c (substance model)"
  shows "getTemperatureInKelvin c model =
           Some (max 0.5 (temperatureSetPoint model * fst (substancePoints c (substance model)) /
                          substanceTriplePoint c (substance model)))"
  using assms
  by (cases "substancePoints c (substance model)")
     (simp add: getTemperatureInKelvin_def substanceTriplePoint_def Let_def max_def)

text \<open>
  Claim C10. \<open>getTemperatureInKelvin\<close> returns \<open>null\<close> exactly when there are no
  particles. With particles it returns 0 when the set point is at or below
  \<open>minModelTemperature\<close>, and a value of at least 0.5 when the set point is above
  \<open>minModelTemperature\<close> and below the triple point of the substance.
\<close>

theorem getTemperatureInKelvin_null_zero_floor:
  "(getTemperatureInKelvin c model = None \<longleftrightarrow> particles model = []) \<and>
   (particles model \<noteq> [] \<longrightarrow>
      temperatureSetPoint model \<le> toNumber (minModelTemperature model) \<longrightarrow>
      getTemperatureInKelvin c model = Some 0) \<and>
   (particles model \<noteq> [] \<longrightarrow>
      toNumber (minModelTemperature model) < temperatureSetPoint model \<longrightarrow>
      temperatureSetPoint model < substanceTriplePoint c (substance model) \<longrightarrow>
      (\<exists>kelvin. getTemperatureInKelvin c model = Some kelvin \<and> 0.5 \<le> kelvin))"
proof (intro conjI impI)
  obtain tk ck tm cm where points: "substancePoints c (substance model) = (tk, ck, tm, cm)"
    by (cases "substancePoints c (substance model)") auto
  show "getTemperatureInKelvin c model = None \<longleftrightarrow> particles model = []"
  proof (cases "particles model = []")
    case True
    then show ?thesis by (simp add: getTemperatureInKelvin_def)
  next
    case False
    then have "getTemperatureInKelvin c model \<noteq> None"
      unfolding getTemperatureInKelvin_def points Let_def
      by (cases "temperatureSetPoint model \<le> toNumber (minModelTemperature model)";
          cases "temperatureSetPoint model < tm";
          cases "temperatureSetPoint model * tk / tm < 0.5";
          cases "temperatureSetPoint model < cm") simp_all
    with False show ?thesis by simp
  qed
next
  assume "particles model \<noteq> []"
    and "temperatureSetPoint model \<le> toNumber (minModelTemperature model)"
  then show "getTemperatureInKelvin c model = Some 0"
    by (cases "substancePoints c (substance model)")
       (simp add: getTemperatureInKelvin_def)
next
  assume "particles model \<noteq> []"
    and "toNumber (minModelTemperature model) < temperatureSetPoint model"
    and "temperatureSetPoint model < substanceTriplePoint c (substance model)"
  from getTemperatureInKelvin_below_triple_point [OF this]
  obtain kelvin where "getTemperatureInKelvin c model = Some (max 0.5 kelvin)"
    by blast
  moreover have "(0.5 :: real) \<le> max 0.5 kelvin"
    by (rule max.cobounded1)
  ultimately show "\<exists>kelvin. getTemperatureInKelvin c model = Some kelvin \<and> 0.5 \<le> kelvin"
    by blast
qed

theorem getTemperatureInKelvin_null_zero_floor_witness:
  "particles exampleModel \<noteq> [] \<and>
   getTemperatureInKelvin exampleConstants exampleModel \<noteq> None \<and>
   temperatureSetPoint (exampleModel\<lparr>temperatureSetPoint := 0.005\<rparr>)
     \<le> toNumber (minModelTemperature (exampleModel\<lparr>temperatureSetPoint := 0.005\<rparr>)) \<and>
   getTemperatureInKelvin exampleConstants (exampleModel\<lparr>temperatureSetPoint := 0.005\<rparr>) = Some 0 \<and>
   toNumber (minModelTemperature exampleModel) < temperatureSetPoint exampleModel \<and>
   temperatureSetPoint exampleModel < substanceTriplePoint exampleConstants (substance exampleModel) \<and>
   (\<exists>kelvin. getTemperatureInKelvin exampleConstants exampleModel = Some kelvin \<and> 0.5 \<le> kelvin)"
proof -
  let ?cold = "exampleModel\<lparr>temperatureSetPoint := 0.005\<rparr>"
  have p: "particles exampleModel \<noteq> []" and pc: "particles ?cold \<noteq> []"
    by (simp_all add: exampleModel_def)
  have lo: "temperatureSetPoint ?cold \<le> toNumber (minModelTemperature ?cold)"
    by (simp add: exampleModel_def toNumber_def)
  have mid: "toNumber (minModelTemperature exampleModel) < temperatureSetPoint exampleModel"
    by (simp add: exampleModel_def toNumber_def)
  have tp: "temperatureSetPoint exampleModel
              < substanceTriplePoint exampleConstants (substance exampleModel)"
    by (simp add: exampleModel_def exampleConstants_def substanceTriplePoint_def
                  substancePoints_def)
  from getTemperatureInKelvin_null_zero_floor [of exampleConstants exampleModel]
       getTemperatureInKelvin_null_zero_floor [of exampleConstants ?cold]
       p pc lo mid tp
  show ?thesis by simp
qed

section \<open>Properties of the diatomic phase state changer\<close>

declare postChangeLoop.simps [simp del]

lemma postChangeLoop_counts:
  "postChangeLoop stepFn i n (model, calls) = ((stepFn ^^ (n - i)) model, calls + (n - i))"
proof (induction stepFn i n "(model, calls)" arbitrary: model calls rule: postChangeLoop.induct)
  case (1 stepFn i n)
  show ?case
  proof (cases "i < n")
    case False
    then show ?thesis by (subst postChangeLoop.simps) simp
  next
    case True
    then have "n - i = Suc (n - Suc i)" by simp
    with True "1.hyps" [OF True] show ?thesis
      by (subst postChangeLoop.simps) (simp add: funpow_swap1)
  qed
qed

text \<open>
  Claim C7. \<open>setPhase\<close> calls the model's \<open>step\<close> exactly 200 times after placing
  the molecules for the liquid phase, and not at all for the solid and the gas phase.
\<close>

theorem setPhase_settle_steps:
  "setPhase ops PHASE_LIQUID model =
     ((modelStep ops ^^ 200) (syncAtoms ops (setPhaseLiquid ops model)), 200) \<and>
   setPhase ops PHASE_SOLID model = (syncAtoms ops (setPhaseSolid ops model), 0) \<and>
   setPhase ops PHASE_GAS model = (syncAtoms ops (setPhaseGas ops model), 0)"
  by (simp add: setPhase_def postChangeLoop_counts)

section \<open>Properties of the pressure bookkeeping\<close>











lemma windowQueue_simps:
  "queueAdd windowQueue v dt q = trimToWindow PRESSURE_CALC_TIME_WINDOW (q @ [(v, dt)])"
  "queueClear windowQueue q = []"
  "queueTotal windowQueue q = sum_list (map fst q)"
  by (simp_all add: windowQueue_def)

lemma run3:
  "updatePressureRun windowQueue [(600, 0.5), (600, 0.5), (600, 0.5)] (emptyAlgorithm, exampleModel) =
   (\<lparr>pressureProperty = 0, pressureAccumulatorQueue = [(600, 0.5), (600, 0.5), (600, 0.5)],
     timeAboveExplosionPressure = 1.5\<rparr>, exampleModel\<lparr>isExploded := True\<rparr>)"
  by (simp add: updatePressure_def windowedPressure_def accumulatedThisStep_def windowQueue_simps
        emptyAlgorithm_def exampleModel_def toNumber_def Let_def setContainerExploded_def
        PRESSURE_CALC_TIME_WINDOW_def EXPLOSION_PRESSURE_def EXPLOSION_TIME_def)





section \<open>The step functions and large time steps\<close>

lemma stepInternal_container:
  "particleContainerHeight (stepInternal engine dt model) =
     particleContainerHeight (adjustContainerHeight dt model)"
  by (simp add: stepInternal_def Let_def)

lemma adjustContainerHeight_lowers:
  assumes "\<not> isExploded model"
    and "targetContainerHeight model < particleContainerHeight model"
  shows "particleContainerHeight (adjustContainerHeight dt model) =
           max (particleContainerHeight model +
                  max (targetContainerHeight model - particleContainerHeight model)
                      (- MAX_CONTAINER_SHRINK_RATE * dt))
               MIN_ALLOWABLE_CONTAINER_HEIGHT"
  using assms by (simp add: adjustContainerHeight_def Let_def)

text \<open>
  Claim C3, as amended. \<open>DualAtomModel.step\<close> drops a step whose time step exceeds 1
  second: it leaves its model as it is. \<open>MultipleParticleModel.step\<close> has no test on
  \<open>dt\<close>: it leaves the model as it is when the model is not playing, and when the model
  is playing it runs \<open>stepInternal( dt )\<close> whatever \<open>dt\<close> is. In particular, on a playing
  model whose container has not exploded and whose lid is above its target and above the
  lowest height, a step with \<open>dt > 0\<close> lowers the container height, by at most
  \<open>MAX_CONTAINER_SHRINK_RATE\<close> times \<open>dt\<close>.
\<close>

theorem step_has_no_large_dt_guard:
  "(1 < simulationTimeStep \<longrightarrow>
      dualAtomStep dualStepInternal playing speedIsNormal simulationTimeStep dualModel = dualModel) \<and>
   (\<not> isPlaying model \<longrightarrow> step engine dt model = model) \<and>
   (isPlaying model \<longrightarrow> step engine dt model = stepInternal engine dt model) \<and>
   (isPlaying model \<and> \<not> isExploded model \<and>
    targetContainerHeight model < particleContainerHeight model \<and>
    MIN_ALLOWABLE_CONTAINER_HEIGHT < particleContainerHeight model \<and> 0 < dt \<longrightarrow>
      particleContainerHeight (step engine dt model) =
        max (particleContainerHeight model +
               max (targetContainerHeight model - particleContainerHeight model)
                   (- MAX_CONTAINER_SHRINK_RATE * dt))
            MIN_ALLOWABLE_CONTAINER_HEIGHT \<and>
      particleContainerHeight (step engine dt model) < particleContainerHeight model)"
proof (intro conjI impI)
  assume "1 < simulationTimeStep"
  then show "dualAtomStep dualStepInternal playing speedIsNormal simulationTimeStep dualModel =
      dualModel"
    by (simp add: dualAtomStep_def)
next
  assume "\<not> isPlaying model"
  then show "step engine dt model = model"
    by (simp add: step_def)
next
  assume "isPlaying model"
  then show "step engine dt model = stepInternal engine dt model"
    by (simp add: step_def)
next
  assume a: "isPlaying model \<and> \<not> isExploded model \<and>
    targetContainerHeight model < particleContainerHeight model \<and>
    MIN_ALLOWABLE_CONTAINER_HEIGHT < particleContainerHeight model \<and> 0 < dt"
  then show "particleContainerHeight (step engine dt model) =
        max (particleContainerHeight model +
               max (targetContainerHeight model - particleContainerHeight model)
                   (- MAX_CONTAINER_SHRINK_RATE * dt))
            MIN_ALLOWABLE_CONTAINER_HEIGHT"
    by (simp add: step_def stepInternal_container adjustContainerHeight_lowers)
next
  assume a: "isPlaying model \<and> \<not> isExploded model \<and>
    targetContainerHeight model < particleContainerHeight model \<and>
    MIN_ALLOWABLE_CONTAINER_HEIGHT < particleContainerHeight model \<and> 0 < dt"
  then have "particleContainerHeight (step engine dt model) =
        max (particleContainerHeight model +
               max (targetContainerHeight model - particleContainerHeight model)
                   (- MAX_CONTAINER_SHRINK_RATE * dt))
            MIN_ALLOWABLE_CONTAINER_HEIGHT"
    by (simp add: step_def stepInternal_container adjustContainerHeight_lowers)
  with a show "particleContainerHeight (step engine dt model) < particleContainerHeight model"
    by (simp add: MAX_CONTAINER_SHRINK_RATE_def)
qed

theorem step_has_no_large_dt_guard_witness:
  "(1 :: real) < 2 \<and>
   dualAtomStep (\<lambda>dt (count :: nat). Suc count) True True 2 0 = 0 \<and>
   \<not> isPlaying (exampleModel\<lparr>isPlaying := False\<rparr>) \<and>
   step quietEngine 2 (exampleModel\<lparr>isPlaying := False\<rparr>) = exampleModel\<lparr>isPlaying := False\<rparr> \<and>
   isPlaying exampleModel \<and> \<not> isExploded exampleModel \<and>
   targetContainerHeight exampleModel < particleContainerHeight exampleModel \<and>
   MIN_ALLOWABLE_CONTAINER_HEIGHT < particleContainerHeight exampleModel \<and>
   step quietEngine 2 exampleModel = stepInternal quietEngine 2 exampleModel \<and>
   particleContainerHeight (step quietEngine 2 exampleModel) < particleContainerHeight exampleModel"
proof -
  have paused: "\<not> isPlaying (exampleModel\<lparr>isPlaying := False\<rparr>)"
    by simp
  have playing: "isPlaying exampleModel" "\<not> isExploded exampleModel"
      "targetContainerHeight exampleModel < particleContainerHeight exampleModel"
      "MIN_ALLOWABLE_CONTAINER_HEIGHT < particleContainerHeight exampleModel"
    by (simp_all add: exampleModel_def MIN_ALLOWABLE_CONTAINER_HEIGHT_def)
  have dt: "(1 :: real) < 2" "(0 :: real) < 2"
    by simp_all
  from step_has_no_large_dt_guard
         [of 2 "\<lambda>dt (count :: nat). Suc count" True True 0 "exampleModel\<lparr>isPlaying := False\<rparr>"
             quietEngine 2]
       step_has_no_large_dt_guard
         [of 2 "\<lambda>dt (count :: nat). Suc count" True True 0 exampleModel quietEngine 2]
       paused playing dt
  show ?thesis by blast
qed

text \<open>
  Claim C3, as stated, fails. On the playing model whose lid is on its way down from 10000
  to 1500, \<open>step\<close> with \<open>dt = 2\<close> lowers the container height to 7500; the rest of
  \<open>stepInternal\<close> assigns no field of the container, whatever the engine does.
\<close>

lemma step_example:
  "step quietEngine 2 exampleModel =
     exampleModel\<lparr>particleInjectedThisStep := False, heightChangeThisStep := - 2500,
                   particleContainerHeight := 7500, normalizedContainerHeight := 7500,
                   normalizedLidVelocityY := - 1250\<rparr>"
  by (simp add: step_def stepInternal_def quietEngine_def adjustContainerHeight_def
        exampleModel_def Let_def MAX_CONTAINER_SHRINK_RATE_def MAX_CONTAINER_EXPAND_RATE_def
        MIN_ALLOWABLE_CONTAINER_HEIGHT_def PARTICLE_CONTAINER_INITIAL_HEIGHT_def)

theorem step_large_dt_changes_container:
  "(1 :: real) < 2 \<and> isPlaying exampleModel \<and> particleContainerHeight exampleModel = 10000 \<and>
   particleContainerHeight (step quietEngine 2 exampleModel) = 7500 \<and>
   step quietEngine 2 exampleModel \<noteq> exampleModel"
proof -
  have "particleContainerHeight (step quietEngine 2 exampleModel) = 7500"
    unfolding step_example by simp
  moreover have "particleContainerHeight exampleModel = 10000" "isPlaying exampleModel"
    by (simp_all add: exampleModel_def)
  ultimately show ?thesis by auto
qed

end
